theory Spec2Isabelle
  imports Complex_Main
begin

section \<open>Data model\<close>

text \<open>
  The two scripts \<^verbatim>\<open>extract_arrays.py\<close> and \<^verbatim>\<open>extract-myseq.py\<close> drive an external
  model over batches of sequences and write one file per sequence. A layer representation
  is a tensor of shape (batch, positions, hidden). The scripts only move its entries
  around; every computation on them is the library's. The entries are therefore of an
  arbitrary type \<open>'a\<close>, and the one reduction the scripts call, \<^verbatim>\<open>.mean(0)\<close>, is taken
  from the environment.
\<close>

type_synonym 'a vec = "'a list"
type_synonym 'a matrix = "'a vec list"
type_synonym 'a tensor = "'a matrix list"
type_synonym toks = "nat list list"

text \<open>A Python dict with integer layer keys, in iteration (insertion) order.\<close>

type_synonym 'v dict = "(int \<times> 'v) list"

text \<open>
  \<^verbatim>\<open>pathlib\<close> expressions as the program builds them: a given path, \<^verbatim>\<open>p / name\<close> and
  \<^verbatim>\<open>p.parent\<close>.
\<close>

datatype path = Path string | Div path string | Parent path

text \<open>
  The dict \<^verbatim>\<open>{"label": label}\<close> of \<^verbatim>\<open>extract_arrays.py\<close>, to which the keys
  \<^verbatim>\<open>"representations"\<close>, \<^verbatim>\<open>"mean_representations"\<close> and \<^verbatim>\<open>"bos_representations"\<close>
  are added on request (\<open>None\<close>: key absent).
\<close>

record 'a result_dict =
  label :: string
  representations :: "'a matrix dict option"
  mean_representations :: "'a vec dict option"
  bos_representations :: "'a vec dict option"

datatype 'a pyval = Dict "'a result_dict" | Matrix "'a matrix" | Vector "'a vec"

text \<open>
  The calls into the environment that the scripts make, in the order they are completed:
  directory creation (\<^verbatim>\<open>mkdir(parents=True, exist_ok=True)\<close>), the model's forward pass
  with the requested layers, and the two ways of saving. The path of a save is the argument
  the script passes to \<^verbatim>\<open>torch.save\<close> or \<^verbatim>\<open>np.save\<close>.
\<close>

datatype 'a event =
    Mkdir path
  | Forward toks "int list"
  | TorchSave path "'a pyval"
  | NpSave path "'a pyval"

datatype 'a error =
    AssertionError
  | NameError string
  | UnboundLocalError string
  | IndexError
  | TypeError
  | AttributeError
  | LibraryError "'a event"

text \<open>\<^verbatim>\<open>UnboundLocalError\<close> is a subclass of \<^verbatim>\<open>NameError\<close> in Python.\<close>

fun is_NameError :: "'a error \<Rightarrow> bool" where
  "is_NameError (NameError v) = True"
| "is_NameError (UnboundLocalError v) = True"
| "is_NameError e = False"

text \<open>The command-line arguments that the main loop reads.\<close>

record args =
  output_dir :: path
  repr_layers :: "int list"
  include_kinds :: "string list"

text \<open>One item of the data loader: \<^verbatim>\<open>(labels, strs, toks)\<close>.\<close>

record batch =
  labels :: "string list"
  strs :: "string list"
  toks :: toks

text \<open>
  What the scripts take from their collaborators: the loaded model's layer count, its
  forward pass (the dict \<^verbatim>\<open>out["representations"]\<close> for the requested layers, in the
  order the model fills it), the library's \<^verbatim>\<open>.mean(0)\<close> on a slice of positions (for a
  slice without rows the library yields not-a-number entries, one per hidden coordinate
  of the model) and which calls into the environment raise.
\<close>

record 'a env =
  num_layers :: int
  forward :: "toks \<Rightarrow> int list \<Rightarrow> 'a tensor dict"
  mean_axis0 :: "'a matrix \<Rightarrow> 'a vec"
  io_fails :: "'a event \<Rightarrow> bool"

section \<open>Layer-index normalisation\<close>

text \<open>
  \<^verbatim>\<open>assert all(-(model.num_layers + 1) <= i <= model.num_layers for i in args.repr_layers)\<close>
  followed by
  \<^verbatim>\<open>[(i + model.num_layers + 1) % (model.num_layers + 1) for i in args.repr_layers]\<close>.
  Python's \<^verbatim>\<open>%\<close> on integers is \<open>mod\<close> for a positive modulus; a modulus of zero is never
  reached, since then no index passes the assertion.
\<close>

definition layer_in_range :: "int \<Rightarrow> int \<Rightarrow> bool" where
  "layer_in_range L i \<longleftrightarrow> - (L + 1) \<le> i \<and> i \<le> L"

definition canonical_layer :: "int \<Rightarrow> int \<Rightarrow> int" where
  "canonical_layer L i = (i + L + 1) mod (L + 1)"

definition normalize_layers :: "int \<Rightarrow> int list \<Rightarrow> 'a error + int list" where
  "normalize_layers L idxs =
     (if list_all (layer_in_range L) idxs then Inr (map (canonical_layer L) idxs)
      else Inl AssertionError)"

section \<open>Tensor indexing\<close>

text \<open>
  \<^verbatim>\<open>len(strs[i])\<close>: the residue count of sequence \<open>i\<close>; the index raises when out of range.
\<close>

definition strs_len :: "string list \<Rightarrow> nat \<Rightarrow> 'a error + nat" where
  "strs_len ss i = (if i < length ss then Inr (length (ss ! i)) else Inl IndexError)"

text \<open>
  \<^verbatim>\<open>t[i, 1 : n + 1]\<close>: row \<open>i\<close> of the batch axis must exist, the slice along the
  position axis is clipped to the positions that exist.
\<close>

definition tslice :: "'a tensor \<Rightarrow> nat \<Rightarrow> nat \<Rightarrow> 'a error + 'a matrix" where
  "tslice t i n = (if i < length t then Inr (take n (drop 1 (t ! i))) else Inl IndexError)"

text \<open>\<^verbatim>\<open>t[i, 1 : len(strs[i]) + 1]\<close>\<close>

definition per_tok_slice :: "string list \<Rightarrow> nat \<Rightarrow> 'a tensor \<Rightarrow> 'a error + 'a matrix" where
  "per_tok_slice ss i t =
     (case strs_len ss i of Inl e \<Rightarrow> Inl e | Inr n \<Rightarrow> tslice t i n)"

text \<open>\<^verbatim>\<open>t[i, 1 : len(strs[i]) + 1].mean(0)\<close>\<close>

definition mean_slice :: "'a env \<Rightarrow> string list \<Rightarrow> nat \<Rightarrow> 'a tensor \<Rightarrow> 'a error + 'a vec" where
  "mean_slice env ss i t =
     (case per_tok_slice ss i t of Inl e \<Rightarrow> Inl e | Inr m \<Rightarrow> Inr (mean_axis0 env m))"

text \<open>\<^verbatim>\<open>t[i, 0]\<close>\<close>

definition bos_slice :: "nat \<Rightarrow> 'a tensor \<Rightarrow> 'a error + 'a vec" where
  "bos_slice i t =
     (if i < length t \<and> 0 < length (t ! i) then Inr (t ! i ! 0) else Inl IndexError)"

text \<open>
  \<^verbatim>\<open>{layer: f(t) for layer, t in representations.items()}\<close>: the values are computed in
  iteration order and the first exception leaves the comprehension.
\<close>

fun dict_comp :: "('v \<Rightarrow> 'e + 'w) \<Rightarrow> 'v dict \<Rightarrow> 'e + 'w dict" where
  "dict_comp f [] = Inr []"
| "dict_comp f ((layer, t) # kvs) =
     (case f t of
        Inl e \<Rightarrow> Inl e
      | Inr v \<Rightarrow> (case dict_comp f kvs of Inl e \<Rightarrow> Inl e | Inr d \<Rightarrow> Inr ((layer, v) # d)))"

section \<open>The per-sequence loop of \<^verbatim>\<open>extract_arrays.py\<close>\<close>

text \<open>
  The state that outlives an exception: the local variable \<^verbatim>\<open>result\<close> of \<^verbatim>\<open>main\<close>
  (\<open>None\<close> while it is unbound; it is not reset between sequences) and the calls into
  the environment completed so far. A run either raises, with the state at that moment,
  or finishes.
\<close>

record 'a io_state =
  trace :: "'a event list"

record 'a state = "'a io_state" +
  result :: "'a pyval option"

type_synonym 'a outcome = "'a error \<times> 'a state + 'a state"

definition and_then :: "'e \<times> 's + 's \<Rightarrow> ('s \<Rightarrow> 'e \<times> 's + 's) \<Rightarrow> 'e \<times> 's + 's" where
  "and_then r f = (case r of Inl x \<Rightarrow> Inl x | Inr s \<Rightarrow> f s)"

definition perform ::
  "'a env \<Rightarrow> 'a event \<Rightarrow> ('a, 'b) io_state_scheme \<Rightarrow>
   'a error \<times> ('a, 'b) io_state_scheme + ('a, 'b) io_state_scheme" where
  "perform env ev st =
     (if io_fails env ev then Inl (LibraryError ev, st)
      else Inr (st\<lparr>trace := trace st @ [ev]\<rparr>))"

definition npy_mode :: "args \<Rightarrow> bool" where
  "npy_mode a \<longleftrightarrow> ''npy_array'' \<in> set (include_kinds a)"

text \<open>Lines 99--106: the file the sequence is saved to.\<close>

definition output_file :: "args \<Rightarrow> string \<Rightarrow> path" where
  "output_file a lbl =
     (if \<not> npy_mode a then Div (output_dir a) (lbl @ ''.pt'') else Div (output_dir a) lbl)"

text \<open>Lines 109--110: \<^verbatim>\<open>result = {"label": label}\<close> unless the raw-array mode is on.\<close>

definition init_result :: "args \<Rightarrow> string \<Rightarrow> 'a state \<Rightarrow> 'a outcome" where
  "init_result a lbl st =
     (if \<not> npy_mode a then
        Inr (st\<lparr>result := Some (Dict \<lparr>label = lbl, representations = None,
                 mean_representations = None, bos_representations = None\<rparr>)\<rparr>)
      else Inr st)"

text \<open>
  \<^verbatim>\<open>result[key] = value\<close>, the value being computed first: the variable must be bound and
  hold the dict.
\<close>

definition set_item :: "('a result_dict \<Rightarrow> 'a result_dict) \<Rightarrow> 'a state \<Rightarrow> 'a outcome" where
  "set_item upd st =
     (case result st of
        None \<Rightarrow> Inl (UnboundLocalError ''result'', st)
      | Some (Dict d) \<Rightarrow> Inr (st\<lparr>result := Some (Dict (upd d))\<rparr>)
      | Some v \<Rightarrow> Inl (TypeError, st))"

text \<open>Lines 119--120: \<^verbatim>\<open>for layer, t in representations.items(): result = t[i, 1: len(strs[i]) + 1]\<close>\<close>

fun overwrite_result :: "string list \<Rightarrow> nat \<Rightarrow> 'a tensor dict \<Rightarrow> 'a state \<Rightarrow> 'a outcome" where
  "overwrite_result ss i [] st = Inr st"
| "overwrite_result ss i ((layer, t) # kvs) st =
     (case per_tok_slice ss i t of
        Inl e \<Rightarrow> Inl (e, st)
      | Inr m \<Rightarrow> overwrite_result ss i kvs (st\<lparr>result := Some (Matrix m)\<rparr>))"

text \<open>Line 121: \<^verbatim>\<open>result.detach().numpy()\<close>, whose value is dropped.\<close>

definition detach_numpy :: "'a state \<Rightarrow> 'a outcome" where
  "detach_numpy st =
     (case result st of
        None \<Rightarrow> Inl (UnboundLocalError ''result'', st)
      | Some (Dict d) \<Rightarrow> Inl (AttributeError, st)
      | Some v \<Rightarrow> Inr st)"

text \<open>Lines 112--121.\<close>

definition per_tok_step :: "args \<Rightarrow> 'a tensor dict \<Rightarrow> string list \<Rightarrow> nat \<Rightarrow> 'a state \<Rightarrow> 'a outcome" where
  "per_tok_step a reps ss i st =
     (if ''per_tok'' \<in> set (include_kinds a) then
        (if \<not> npy_mode a then
           (case dict_comp (per_tok_slice ss i) reps of
              Inl e \<Rightarrow> Inl (e, st)
            | Inr d \<Rightarrow> set_item (\<lambda>r. r\<lparr>representations := Some d\<rparr>) st)
         else and_then (overwrite_result ss i reps st) detach_numpy)
      else Inr st)"

text \<open>Lines 123--128.\<close>

definition mean_step ::
  "'a env \<Rightarrow> args \<Rightarrow> 'a tensor dict \<Rightarrow> string list \<Rightarrow> nat \<Rightarrow> 'a state \<Rightarrow> 'a outcome" where
  "mean_step env a reps ss i st =
     (if ''mean'' \<in> set (include_kinds a) then
        (if \<not> npy_mode a then
           (case dict_comp (mean_slice env ss i) reps of
              Inl e \<Rightarrow> Inl (e, st)
            | Inr d \<Rightarrow> set_item (\<lambda>r. r\<lparr>mean_representations := Some d\<rparr>) st)
         else Inr st)
      else Inr st)"

text \<open>Lines 129--133.\<close>

definition bos_step :: "args \<Rightarrow> 'a tensor dict \<Rightarrow> nat \<Rightarrow> 'a state \<Rightarrow> 'a outcome" where
  "bos_step a reps i st =
     (if ''bos'' \<in> set (include_kinds a) then
        (if \<not> npy_mode a then
           (case dict_comp (bos_slice i) reps of
              Inl e \<Rightarrow> Inl (e, st)
            | Inr d \<Rightarrow> set_item (\<lambda>r. r\<lparr>bos_representations := Some d\<rparr>) st)
         else Inr st)
      else Inr st)"

text \<open>
  Lines 134--143: \<^verbatim>\<open>torch.save(result, args.output_file)\<close> or
  \<^verbatim>\<open>np.save(args.output_file, result)\<close>; the argument \<^verbatim>\<open>result\<close> is read before the call.
\<close>

definition save_step :: "'a env \<Rightarrow> args \<Rightarrow> string \<Rightarrow> 'a state \<Rightarrow> 'a outcome" where
  "save_step env a lbl st =
     (case result st of
        None \<Rightarrow> Inl (UnboundLocalError ''result'', st)
      | Some v \<Rightarrow>
          (if \<not> npy_mode a then perform env (TorchSave (output_file a lbl) v) st
           else perform env (NpSave (output_file a lbl) v) st))"

text \<open>Lines 99--143: the body of \<^verbatim>\<open>for i, label in enumerate(labels)\<close>.\<close>

definition process_sequence ::
  "'a env \<Rightarrow> args \<Rightarrow> 'a tensor dict \<Rightarrow> string list \<Rightarrow> nat \<Rightarrow> string \<Rightarrow> 'a state \<Rightarrow> 'a outcome" where
  "process_sequence env a reps ss i lbl st =
     and_then (perform env (Mkdir (Parent (output_file a lbl))) st) (\<lambda>st.
     and_then (init_result a lbl st) (\<lambda>st.
     and_then (per_tok_step a reps ss i st) (\<lambda>st.
     and_then (mean_step env a reps ss i st) (\<lambda>st.
     and_then (bos_step a reps i st) (\<lambda>st.
     save_step env a lbl st)))))"

text \<open>Line 98: \<^verbatim>\<open>for i, label in enumerate(labels)\<close>, from index \<open>i\<close> on.\<close>

fun for_labels ::
  "'a env \<Rightarrow> args \<Rightarrow> 'a tensor dict \<Rightarrow> string list \<Rightarrow> nat \<Rightarrow> string list \<Rightarrow> 'a state \<Rightarrow> 'a outcome" where
  "for_labels env a reps ss i [] st = Inr st"
| "for_labels env a reps ss i (lbl # ls) st =
     (case process_sequence env a reps ss i lbl st of
        Inl x \<Rightarrow> Inl x
      | Inr st' \<Rightarrow> for_labels env a reps ss (Suc i) ls st')"

text \<open>
  Lines 85--143: one batch is a forward pass with the normalised layers, then the loop
  over its sequences.
\<close>

definition process_batch :: "'a env \<Rightarrow> args \<Rightarrow> int list \<Rightarrow> batch \<Rightarrow> 'a state \<Rightarrow> 'a outcome" where
  "process_batch env a rl b st =
     and_then (perform env (Forward (toks b) rl) st)
       (for_labels env a (forward env (toks b) rl) (strs b) 0 (labels b))"

fun for_batches :: "'a env \<Rightarrow> args \<Rightarrow> int list \<Rightarrow> batch list \<Rightarrow> 'a state \<Rightarrow> 'a outcome" where
  "for_batches env a rl [] st = Inr st"
| "for_batches env a rl (b # bs) st =
     (case process_batch env a rl b st of
        Inl x \<Rightarrow> Inl x
      | Inr st' \<Rightarrow> for_batches env a rl bs st')"

text \<open>
  \<^verbatim>\<open>main\<close> of \<^verbatim>\<open>extract_arrays.py\<close> from line 75 on, given the batches of the data loader:
  the output directory is created, the layer indices are checked and normalised, and the
  batches are processed.
\<close>

definition main_arrays :: "'a env \<Rightarrow> args \<Rightarrow> batch list \<Rightarrow> 'a outcome" where
  "main_arrays env a batches =
     and_then (perform env (Mkdir (output_dir a)) \<lparr>trace = [], result = None\<rparr>) (\<lambda>st.
       (case normalize_layers (num_layers env) (repr_layers a) of
          Inl e \<Rightarrow> Inl (e, st)
        | Inr rl \<Rightarrow> for_batches env a rl batches st))"

section \<open>The per-sequence loop of \<^verbatim>\<open>extract-myseq.py\<close>\<close>

text \<open>
  In this script \<^verbatim>\<open>main\<close> assigns \<^verbatim>\<open>res\<close> but never \<^verbatim>\<open>result\<close> (line 108, the only
  assignment, is a comment), and the module binds no global of that name: \<^verbatim>\<open>result\<close> is
  looked up as a global and the lookup raises \<^verbatim>\<open>NameError\<close>.
\<close>

record 'a myseq_state = "'a io_state" +
  res :: "'a vec option"

type_synonym 'a myseq_outcome = "'a error \<times> 'a myseq_state + 'a myseq_state"

text \<open>
  \<^verbatim>\<open>result[key] = {...}\<close>: the comprehension on the right is computed first, then the
  name \<^verbatim>\<open>result\<close> is looked up.
\<close>

definition myseq_set_item :: "'a error + 'b dict \<Rightarrow> 'a myseq_state \<Rightarrow> 'a myseq_outcome" where
  "myseq_set_item rhs st =
     (case rhs of Inl e \<Rightarrow> Inl (e, st) | Inr d \<Rightarrow> Inl (NameError ''result'', st))"

text \<open>Lines 110--120.\<close>

definition myseq_per_tok_step ::
  "args \<Rightarrow> 'a tensor dict \<Rightarrow> string list \<Rightarrow> nat \<Rightarrow> 'a myseq_state \<Rightarrow> 'a myseq_outcome" where
  "myseq_per_tok_step a reps ss i st =
     (if ''per_tok'' \<in> set (include_kinds a)
      then myseq_set_item (dict_comp (per_tok_slice ss i) reps) st else Inr st)"

definition myseq_mean_step ::
  "'a env \<Rightarrow> args \<Rightarrow> 'a tensor dict \<Rightarrow> string list \<Rightarrow> nat \<Rightarrow> 'a myseq_state \<Rightarrow> 'a myseq_outcome" where
  "myseq_mean_step env a reps ss i st =
     (if ''mean'' \<in> set (include_kinds a)
      then myseq_set_item (dict_comp (mean_slice env ss i) reps) st else Inr st)"

text \<open>Lines 122--123: \<^verbatim>\<open>for layer, t in representations.items(): res = t[i, 1: len(strs[i]) + 1].mean(0)\<close>\<close>

fun overwrite_res ::
  "'a env \<Rightarrow> string list \<Rightarrow> nat \<Rightarrow> 'a tensor dict \<Rightarrow> 'a myseq_state \<Rightarrow> 'a myseq_outcome" where
  "overwrite_res env ss i [] st = Inr st"
| "overwrite_res env ss i ((layer, t) # kvs) st =
     (case mean_slice env ss i t of
        Inl e \<Rightarrow> Inl (e, st)
      | Inr v \<Rightarrow> overwrite_res env ss i kvs (st\<lparr>res := Some v\<rparr>))"

text \<open>Line 124: \<^verbatim>\<open>res.detach().numpy()\<close>, whose value is dropped.\<close>

definition myseq_detach_numpy :: "'a myseq_state \<Rightarrow> 'a myseq_outcome" where
  "myseq_detach_numpy st =
     (case res st of None \<Rightarrow> Inl (UnboundLocalError ''res'', st) | Some v \<Rightarrow> Inr st)"

text \<open>Lines 126--129.\<close>

definition myseq_bos_step :: "args \<Rightarrow> 'a tensor dict \<Rightarrow> nat \<Rightarrow> 'a myseq_state \<Rightarrow> 'a myseq_outcome" where
  "myseq_bos_step a reps i st =
     (if ''bos'' \<in> set (include_kinds a)
      then myseq_set_item (dict_comp (bos_slice i) reps) st else Inr st)"

text \<open>Lines 131--134: \<^verbatim>\<open>np.save(args.output_file, res)\<close>\<close>

definition myseq_np_save :: "'a env \<Rightarrow> path \<Rightarrow> 'a myseq_state \<Rightarrow> 'a myseq_outcome" where
  "myseq_np_save env f st =
     (case res st of
        None \<Rightarrow> Inl (UnboundLocalError ''res'', st)
      | Some v \<Rightarrow> perform env (NpSave f (Vector v)) st)"

text \<open>
  Lines 136--139: \<^verbatim>\<open>torch.save(result, args.output_file)\<close>; the argument \<^verbatim>\<open>result\<close> is
  looked up before the call.
\<close>

definition myseq_torch_save :: "'a myseq_state \<Rightarrow> 'a myseq_outcome" where
  "myseq_torch_save st = Inl (NameError ''result'', st)"

text \<open>Lines 104--139: the body of \<^verbatim>\<open>for i, label in enumerate(labels)\<close>.\<close>

definition myseq_process_sequence ::
  "'a env \<Rightarrow> args \<Rightarrow> 'a tensor dict \<Rightarrow> string list \<Rightarrow> nat \<Rightarrow> string \<Rightarrow> 'a myseq_state \<Rightarrow> 'a myseq_outcome" where
  "myseq_process_sequence env a reps ss i lbl st =
     and_then (perform env (Mkdir (Parent (Div (output_dir a) lbl))) st) (\<lambda>st.
     and_then (myseq_per_tok_step a reps ss i st) (\<lambda>st.
     and_then (myseq_mean_step env a reps ss i st) (\<lambda>st.
     and_then (overwrite_res env ss i reps st) (\<lambda>st.
     and_then (myseq_detach_numpy st) (\<lambda>st.
     and_then (myseq_bos_step a reps i st) (\<lambda>st.
     and_then (myseq_np_save env (Div (output_dir a) lbl) st)
       myseq_torch_save))))))"

fun myseq_for_labels ::
  "'a env \<Rightarrow> args \<Rightarrow> 'a tensor dict \<Rightarrow> string list \<Rightarrow> nat \<Rightarrow> string list \<Rightarrow> 'a myseq_state \<Rightarrow> 'a myseq_outcome" where
  "myseq_for_labels env a reps ss i [] st = Inr st"
| "myseq_for_labels env a reps ss i (lbl # ls) st =
     (case myseq_process_sequence env a reps ss i lbl st of
        Inl x \<Rightarrow> Inl x
      | Inr st' \<Rightarrow> myseq_for_labels env a reps ss (Suc i) ls st')"

definition myseq_process_batch ::
  "'a env \<Rightarrow> args \<Rightarrow> int list \<Rightarrow> batch \<Rightarrow> 'a myseq_state \<Rightarrow> 'a myseq_outcome" where
  "myseq_process_batch env a rl b st =
     and_then (perform env (Forward (toks b) rl) st)
       (myseq_for_labels env a (forward env (toks b) rl) (strs b) 0 (labels b))"

fun myseq_for_batches ::
  "'a env \<Rightarrow> args \<Rightarrow> int list \<Rightarrow> batch list \<Rightarrow> 'a myseq_state \<Rightarrow> 'a myseq_outcome" where
  "myseq_for_batches env a rl [] st = Inr st"
| "myseq_for_batches env a rl (b # bs) st =
     (case myseq_process_batch env a rl b st of
        Inl x \<Rightarrow> Inl x
      | Inr st' \<Rightarrow> myseq_for_batches env a rl bs st')"

text \<open>
  Lines 73--139, the body of the loop over the FASTA files of the folder: the output
  directory is created, the layer indices are checked and normalised, and the file's
  batches are processed.
\<close>

definition myseq_process_file :: "'a env \<Rightarrow> args \<Rightarrow> batch list \<Rightarrow> 'a myseq_state \<Rightarrow> 'a myseq_outcome" where
  "myseq_process_file env a batches st =
     and_then (perform env (Mkdir (output_dir a)) st) (\<lambda>st.
       (case normalize_layers (num_layers env) (repr_layers a) of
          Inl e \<Rightarrow> Inl (e, st)
        | Inr rl \<Rightarrow> myseq_for_batches env a rl batches st))"

fun myseq_for_files :: "'a env \<Rightarrow> args \<Rightarrow> batch list list \<Rightarrow> 'a myseq_state \<Rightarrow> 'a myseq_outcome" where
  "myseq_for_files env a [] st = Inr st"
| "myseq_for_files env a (f # fs) st =
     (case myseq_process_file env a f st of
        Inl x \<Rightarrow> Inl x
      | Inr st' \<Rightarrow> myseq_for_files env a fs st')"

text \<open>
  \<^verbatim>\<open>main\<close> of \<^verbatim>\<open>extract-myseq.py\<close> from line 71 on, given the batches of each FASTA file
  that the glob finds.
\<close>

definition main_myseq :: "'a env \<Rightarrow> args \<Rightarrow> batch list list \<Rightarrow> 'a myseq_outcome" where
  "main_myseq env a files = myseq_for_files env a files \<lparr>trace = [], res = None\<rparr>"

section \<open>Observations on outcomes\<close>

text \<open>The state a run ends in, whether it raised or finished.\<close>

definition final_state :: "'e \<times> 's + 's \<Rightarrow> 's" where
  "final_state r = (case r of Inl (e, s) \<Rightarrow> s | Inr s \<Rightarrow> s)"

fun is_Forward :: "'a event \<Rightarrow> bool" where
  "is_Forward (Forward t rl) = True"
| "is_Forward ev = False"

fun is_save :: "'a event \<Rightarrow> bool" where
  "is_save (TorchSave f v) = True"
| "is_save (NpSave f v) = True"
| "is_save ev = False"

text \<open>The path argument of a completed call.\<close>

fun event_path :: "'a event \<Rightarrow> path option" where
  "event_path (Mkdir f) = Some f"
| "event_path (TorchSave f v) = Some f"
| "event_path (NpSave f v) = Some f"
| "event_path (Forward t rl) = None"

text \<open>
  The shape that the batch converter and the model give their results: sequence \<open>i\<close> has
  its string, and in every layer tensor a row that holds the beginning-of-sequence
  position followed by at least one position per residue.
\<close>

definition row_present :: "'a tensor dict \<Rightarrow> string list \<Rightarrow> nat \<Rightarrow> bool" where
  "row_present reps ss i \<longleftrightarrow>
     i < length ss \<and> list_all (\<lambda>(layer, t). i < length t \<and> length (ss ! i) < length (t ! i)) reps"

section \<open>Properties of the layer-index normalisation\<close>

lemma canonical_layer_range:
  assumes "layer_in_range L i"
  shows "0 \<le> canonical_layer L i \<and> canonical_layer L i \<le> L"
proof -
  from assms have "0 < L + 1" unfolding layer_in_range_def by linarith
  then have "0 \<le> (i + L + 1) mod (L + 1) \<and> (i + L + 1) mod (L + 1) < L + 1"
    using pos_mod_sign[of "L + 1" "i + L + 1"] pos_mod_bound[of "L + 1" "i + L + 1"] by blast
  then show ?thesis unfolding canonical_layer_def by linarith
qed

lemma canonical_layer_cases:
  assumes "layer_in_range L i"
  shows "canonical_layer L i = (if i < 0 then i + L + 1 else i)"
proof -
  from assms have r: "- (L + 1) \<le> i" "i \<le> L" unfolding layer_in_range_def by auto
  show ?thesis
  proof (cases "i < 0")
    case True
    with r have "0 \<le> i + L + 1" "i + L + 1 < L + 1" by linarith+
    then have "(i + L + 1) mod (L + 1) = i + L + 1" by simp
    with True show ?thesis by (simp add: canonical_layer_def)
  next
    case False
    with r have "0 \<le> i" "i < L + 1" by linarith+
    then have "i mod (L + 1) = i" by simp
    moreover have "(i + L + 1) mod (L + 1) = i mod (L + 1)"
      by (metis add.assoc mod_add_self2)
    ultimately show ?thesis using False by (simp add: canonical_layer_def)
  qed
qed

lemma list_all_in_range_iff:
  "list_all (layer_in_range L) idxs \<longleftrightarrow> (\<forall>i\<in>set idxs. - (L + 1) \<le> i \<and> i \<le> L)"
  by (simp add: list_all_iff layer_in_range_def)

lemma perform_ok: "\<not> io_fails env ev \<Longrightarrow> perform env ev st = Inr (st\<lparr>trace := trace st @ [ev]\<rparr>)"
  by (simp add: perform_def)

text \<open>
  Claim C2. When every requested layer index lies in \<open>[-(L+1), L]\<close>, the normaliser
  returns the list of the values \<open>(i + L + 1) mod (L + 1)\<close>, each of them non-negative;
  when some index lies outside, it fails with an assertion failure, and so do
  \<^verbatim>\<open>main\<close> of \<^verbatim>\<open>extract_arrays.py\<close> and the per-file body of \<^verbatim>\<open>extract-myseq.py\<close>
  once the output directory exists.
\<close>

theorem normalize_layers_contract:
  "((\<forall>i\<in>set idxs. - (L + 1) \<le> i \<and> i \<le> L) \<longrightarrow>
      normalize_layers L idxs = Inr (map (\<lambda>i. (i + L + 1) mod (L + 1)) idxs) \<and>
      (\<forall>i\<in>set idxs. 0 \<le> (i + L + 1) mod (L + 1))) \<and>
   ((\<exists>i\<in>set idxs. \<not> (- (L + 1) \<le> i \<and> i \<le> L)) \<longrightarrow>
      normalize_layers L idxs = Inl AssertionError) \<and>
   ((\<exists>i\<in>set (repr_layers a). \<not> (- (num_layers env + 1) \<le> i \<and> i \<le> num_layers env)) \<and>
      \<not> io_fails env (Mkdir (output_dir a)) \<longrightarrow>
      main_arrays env a batches =
        Inl (AssertionError, \<lparr>trace = [Mkdir (output_dir a)], result = None\<rparr>) \<and>
      myseq_process_file env a batches mst =
        Inl (AssertionError, mst\<lparr>trace := trace mst @ [Mkdir (output_dir a)]\<rparr>))"
proof (intro conjI impI)
  assume v: "\<forall>i\<in>set idxs. - (L + 1) \<le> i \<and> i \<le> L"
  then have "list_all (layer_in_range L) idxs" by (simp add: list_all_in_range_iff)
  then show "normalize_layers L idxs = Inr (map (\<lambda>i. (i + L + 1) mod (L + 1)) idxs)"
    by (simp add: normalize_layers_def canonical_layer_def[abs_def])
  show "\<forall>i\<in>set idxs. 0 \<le> (i + L + 1) mod (L + 1)"
  proof
    fix i assume "i \<in> set idxs"
    with v have "layer_in_range L i" by (simp add: layer_in_range_def)
    from canonical_layer_range[OF this] show "0 \<le> (i + L + 1) mod (L + 1)"
      by (simp add: canonical_layer_def)
  qed
next
  assume "\<exists>i\<in>set idxs. \<not> (- (L + 1) \<le> i \<and> i \<le> L)"
  then have "\<not> list_all (layer_in_range L) idxs" by (simp add: list_all_in_range_iff)
  then show "normalize_layers L idxs = Inl AssertionError"
    by (simp add: normalize_layers_def)
next
  assume h: "(\<exists>i\<in>set (repr_layers a). \<not> (- (num_layers env + 1) \<le> i \<and> i \<le> num_layers env)) \<and>
      \<not> io_fails env (Mkdir (output_dir a))"
  then have n: "\<not> list_all (layer_in_range (num_layers env)) (repr_layers a)"
    by (simp add: list_all_in_range_iff)
  from h show "main_arrays env a batches =
        Inl (AssertionError, \<lparr>trace = [Mkdir (output_dir a)], result = None\<rparr>)"
    by (simp add: main_arrays_def perform_ok and_then_def normalize_layers_def n)
next
  assume h: "(\<exists>i\<in>set (repr_layers a). \<not> (- (num_layers env + 1) \<le> i \<and> i \<le> num_layers env)) \<and>
      \<not> io_fails env (Mkdir (output_dir a))"
  then have n: "\<not> list_all (layer_in_range (num_layers env)) (repr_layers a)"
    by (simp add: list_all_in_range_iff)
  from h show "myseq_process_file env a batches mst =
        Inl (AssertionError, mst\<lparr>trace := trace mst @ [Mkdir (output_dir a)]\<rparr>)"
    by (simp add: myseq_process_file_def perform_ok and_then_def normalize_layers_def n)
qed

theorem normalize_layers_contract_witness:
  "(normalize_layers 2 [- 1, 0, - 3, 2] :: real error + int list) = Inr [2, 0, 0, 2] \<and>
   (normalize_layers 2 [0, 3] :: real error + int list) = Inl AssertionError \<and>
   main_arrays \<lparr>num_layers = 2, forward = (\<lambda>t rl. []), mean_axis0 = (\<lambda>m. []), io_fails = (\<lambda>ev::real event. False)\<rparr>
     \<lparr>output_dir = Path ''out'', repr_layers = [0, 3], include_kinds = [''mean'']\<rparr>
     [\<lparr>labels = [''s''], strs = [''MK''], toks = [[0, 1, 2]]\<rparr>] =
     Inl (AssertionError, \<lparr>trace = [Mkdir (Path ''out'')], result = None\<rparr>)"
proof -
  let ?env = "\<lparr>num_layers = 2, forward = (\<lambda>t rl. []), mean_axis0 = (\<lambda>m. []), io_fails = (\<lambda>ev::real event. False)\<rparr>"
  let ?a = "\<lparr>output_dir = Path ''out'', repr_layers = [0, 3], include_kinds = [''mean'']\<rparr>"
  let ?bs = "[\<lparr>labels = [''s''], strs = [''MK''], toks = [[0, 1, 2]]\<rparr>]"
  let ?mst = "\<lparr>trace = [], res = None\<rparr> :: real myseq_state"
  have valid: "\<forall>i\<in>set [- 1, 0, - 3, 2 :: int]. - (2 + 1) \<le> i \<and> i \<le> 2" by simp
  have invalid: "(\<exists>i\<in>set (repr_layers ?a). \<not> (- (num_layers ?env + 1) \<le> i \<and> i \<le> num_layers ?env)) \<and>
      \<not> io_fails ?env (Mkdir (output_dir ?a))" by simp
  have invalid': "\<exists>i\<in>set [0, 3 :: int]. \<not> (- (2 + 1) \<le> i \<and> i \<le> 2)" by simp
  note inst1 = normalize_layers_contract [where idxs = "[- 1, 0, - 3, 2]" and L = 2
      and env = ?env and a = ?a and batches = ?bs and mst = ?mst]
  note inst2 = normalize_layers_contract [where idxs = "[0, 3]" and L = 2
      and env = ?env and a = ?a and batches = ?bs and mst = ?mst]
  from inst1 valid have n1: "(normalize_layers 2 [- 1, 0, - 3, 2] :: real error + int list) =
      Inr (map (\<lambda>i. (i + 2 + 1) mod (2 + 1)) [- 1, 0, - 3, 2])" by blast
  from inst2 invalid' have n2: "(normalize_layers 2 [0, 3] :: real error + int list) = Inl AssertionError"
    by blast
  from inst2 invalid have m: "main_arrays ?env ?a ?bs =
      Inl (AssertionError, \<lparr>trace = [Mkdir (output_dir ?a)], result = None\<rparr>)" by blast
  from n1 n2 m show ?thesis by simp
qed

lemma canonical_layer_eq_iff:
  assumes "layer_in_range L i" "layer_in_range L j"
  shows "canonical_layer L i = canonical_layer L j \<longleftrightarrow> i = j \<or> j = i + L + 1 \<or> i = j + L + 1"
  using assms unfolding canonical_layer_cases[OF assms(1)] canonical_layer_cases[OF assms(2)]
    layer_in_range_def
  by (auto split: if_splits)

lemma invalid_layers_assert:
  assumes "\<exists>i\<in>set (repr_layers a). \<not> (- (num_layers env + 1) \<le> i \<and> i \<le> num_layers env)"
  shows "\<not> list_all (layer_in_range (num_layers env)) (repr_layers a)"
  using assms by (simp add: list_all_in_range_iff)

lemma main_arrays_invalid:
  assumes "\<not> list_all (layer_in_range (num_layers env)) (repr_layers a)"
  shows "isl (main_arrays env a batches) \<and>
         \<not> list_ex is_Forward (trace (final_state (main_arrays env a batches)))"
  using assms
  by (simp add: main_arrays_def perform_def and_then_def final_state_def normalize_layers_def)

lemma myseq_process_file_invalid:
  assumes "\<not> list_all (layer_in_range (num_layers env)) (repr_layers a)"
  shows "\<exists>e st'. myseq_process_file env a f st = Inl (e, st') \<and>
           (trace st' = trace st \<or> trace st' = trace st @ [Mkdir (output_dir a)])"
  using assms by (simp add: myseq_process_file_def perform_def and_then_def normalize_layers_def)

lemma main_myseq_invalid:
  assumes "\<not> list_all (layer_in_range (num_layers env)) (repr_layers a)"
  shows "(files \<noteq> [] \<longrightarrow> isl (main_myseq env a files)) \<and>
         \<not> list_ex is_Forward (trace (final_state (main_myseq env a files)))"
proof (cases files)
  case Nil
  then show ?thesis by (simp add: main_myseq_def final_state_def)
next
  case (Cons f fs)
  from myseq_process_file_invalid[OF assms, of f "\<lparr>trace = [], res = None\<rparr>"]
  obtain e st' where "myseq_process_file env a f \<lparr>trace = [], res = None\<rparr> = Inl (e, st')"
    "trace st' = [] \<or> trace st' = [Mkdir (output_dir a)]" by auto
  with Cons show ?thesis by (auto simp: main_myseq_def final_state_def)
qed

text \<open>
  Claim C3, as amended. For a list of layer indices that are all in \<open>[-(L+1), L]\<close>, the
  normalisation maps the indices into \<open>[0, L]\<close>, and it is a bijection from the list's
  indices onto their images exactly when the list does not hold two indices that differ
  by \<open>L + 1\<close>. When some index is out of range, both scripts raise before any forward
  pass of the model (\<^verbatim>\<open>extract-myseq.py\<close> provided the folder holds a FASTA file).
\<close>

theorem canonical_layer_bijection_amended:
  "((\<forall>i\<in>set idxs. - (L + 1) \<le> i \<and> i \<le> L) \<longrightarrow>
      canonical_layer L ` set idxs \<subseteq> {0..L} \<and>
      (bij_betw (canonical_layer L) (set idxs) (canonical_layer L ` set idxs) \<longleftrightarrow>
         (\<forall>i\<in>set idxs. \<forall>j\<in>set idxs. j \<noteq> i + L + 1))) \<and>
   ((\<exists>i\<in>set (repr_layers a). \<not> (- (num_layers env + 1) \<le> i \<and> i \<le> num_layers env)) \<longrightarrow>
      isl (main_arrays env a batches) \<and>
      \<not> list_ex is_Forward (trace (final_state (main_arrays env a batches))) \<and>
      (files \<noteq> [] \<longrightarrow> isl (main_myseq env a files)) \<and>
      \<not> list_ex is_Forward (trace (final_state (main_myseq env a files))))"
proof (intro conjI impI)
  assume v: "\<forall>i\<in>set idxs. - (L + 1) \<le> i \<and> i \<le> L"
  then have r: "\<And>i. i \<in> set idxs \<Longrightarrow> layer_in_range L i"
    by (simp add: layer_in_range_def)
  show "canonical_layer L ` set idxs \<subseteq> {0..L}"
    using canonical_layer_range[OF r] by auto
  have "inj_on (canonical_layer L) (set idxs) \<longleftrightarrow> (\<forall>i\<in>set idxs. \<forall>j\<in>set idxs. j \<noteq> i + L + 1)"
  proof
    assume inj: "inj_on (canonical_layer L) (set idxs)"
    show "\<forall>i\<in>set idxs. \<forall>j\<in>set idxs. j \<noteq> i + L + 1"
    proof (intro ballI notI)
      fix i j assume ij: "i \<in> set idxs" "j \<in> set idxs" "j = i + L + 1"
      then have "canonical_layer L i = canonical_layer L j"
        using canonical_layer_eq_iff[OF r[OF ij(1)] r[OF ij(2)]] by simp
      with inj ij have "i = j" by (auto dest: inj_onD)
      with ij(3) r[OF ij(1)] show False by (simp add: layer_in_range_def)
    qed
  next
    assume d: "\<forall>i\<in>set idxs. \<forall>j\<in>set idxs. j \<noteq> i + L + 1"
    show "inj_on (canonical_layer L) (set idxs)"
    proof (rule inj_onI)
      fix i j assume ij: "i \<in> set idxs" "j \<in> set idxs"
        "canonical_layer L i = canonical_layer L j"
      with canonical_layer_eq_iff[OF r[OF ij(1)] r[OF ij(2)]]
      have "i = j \<or> j = i + L + 1 \<or> i = j + L + 1" by simp
      with d ij show "i = j" by blast
    qed
  qed
  then show "bij_betw (canonical_layer L) (set idxs) (canonical_layer L ` set idxs) \<longleftrightarrow>
         (\<forall>i\<in>set idxs. \<forall>j\<in>set idxs. j \<noteq> i + L + 1)"
    by (simp add: bij_betw_def)
next
  assume "\<exists>i\<in>set (repr_layers a). \<not> (- (num_layers env + 1) \<le> i \<and> i \<le> num_layers env)"
  from main_arrays_invalid[OF invalid_layers_assert[OF this]]
  show "isl (main_arrays env a batches)"
    "\<not> list_ex is_Forward (trace (final_state (main_arrays env a batches)))" by blast+
next
  assume "\<exists>i\<in>set (repr_layers a). \<not> (- (num_layers env + 1) \<le> i \<and> i \<le> num_layers env)"
  from main_myseq_invalid[OF invalid_layers_assert[OF this]]
  show "\<not> list_ex is_Forward (trace (final_state (main_myseq env a files)))" by blast
next
  assume "\<exists>i\<in>set (repr_layers a). \<not> (- (num_layers env + 1) \<le> i \<and> i \<le> num_layers env)"
    and "files \<noteq> []"
  with main_myseq_invalid[OF invalid_layers_assert]
  show "isl (main_myseq env a files)" by blast
qed

text \<open>
  Counterexample to claim C3 as stated: with \<open>L = 1\<close> the valid list \<open>[-1, 1]\<close> is normalised to
  \<open>[1, 1]\<close>, so the map is not injective on it.
\<close>

theorem canonical_layer_not_injective:
  "list_all (layer_in_range 1) [- 1, 1] \<and>
   (normalize_layers 1 [- 1, 1] :: real error + int list) = Inr [1, 1] \<and>
   \<not> inj_on (canonical_layer 1) (set [- 1, 1])"
  by (simp add: layer_in_range_def normalize_layers_def canonical_layer_def)

theorem canonical_layer_bijection_amended_witness:
  "canonical_layer 2 ` set [- 1, 0, 1] \<subseteq> {0..2} \<and>
   bij_betw (canonical_layer 2) (set [- 1, 0, 1]) (canonical_layer 2 ` set [- 1, 0, 1]) \<and>
   isl (main_arrays \<lparr>num_layers = 2, forward = (\<lambda>t rl. []), mean_axis0 = (\<lambda>m. []), io_fails = (\<lambda>ev::real event. False)\<rparr>
     \<lparr>output_dir = Path ''out'', repr_layers = [0, 3], include_kinds = [''mean'']\<rparr>
     [\<lparr>labels = [''s''], strs = [''MK''], toks = [[0, 1, 2]]\<rparr>]) \<and>
   isl (main_myseq \<lparr>num_layers = 2, forward = (\<lambda>t rl. []), mean_axis0 = (\<lambda>m. []), io_fails = (\<lambda>ev::real event. False)\<rparr>
     \<lparr>output_dir = Path ''out'', repr_layers = [0, 3], include_kinds = [''mean'']\<rparr>
     [[\<lparr>labels = [''s''], strs = [''MK''], toks = [[0, 1, 2]]\<rparr>]])"
  using canonical_layer_bijection_amended [where idxs = "[- 1, 0, 1]" and L = 2
      and env = "\<lparr>num_layers = 2, forward = (\<lambda>t rl. []), mean_axis0 = (\<lambda>m. []), io_fails = (\<lambda>ev::real event. False)\<rparr>"
      and a = "\<lparr>output_dir = Path ''out'', repr_layers = [0, 3], include_kinds = [''mean'']\<rparr>"
      and batches = "[\<lparr>labels = [''s''], strs = [''MK''], toks = [[0, 1, 2]]\<rparr>]"
      and files = "[[\<lparr>labels = [''s''], strs = [''MK''], toks = [[0, 1, 2]]\<rparr>]]"]
  by simp

section \<open>Properties of the per-sequence loop of \<^verbatim>\<open>extract_arrays.py\<close>\<close>


lemma dict_comp_map:
  "\<forall>kv\<in>set reps. f (snd kv) = Inr (g (snd kv)) \<Longrightarrow>
   dict_comp f reps = Inr (map (\<lambda>(l, t). (l, g t)) reps)"
  by (induction reps) auto

lemma row_presentD:
  assumes "row_present reps ss i" "(l, t) \<in> set reps"
  shows "i < length ss" "i < length t" "length (ss ! i) < length (t ! i)"
  using assms by (auto simp: row_present_def list_all_iff)

lemma per_tok_slice_ok:
  "i < length ss \<Longrightarrow> i < length t \<Longrightarrow>
   per_tok_slice ss i t = Inr (take (length (ss ! i)) (drop 1 (t ! i)))"
  by (simp add: per_tok_slice_def strs_len_def tslice_def)

lemma mean_slice_ok:
  "i < length ss \<Longrightarrow> i < length t \<Longrightarrow>
   mean_slice env ss i t = Inr (mean_axis0 env (take (length (ss ! i)) (drop 1 (t ! i))))"
  by (simp add: mean_slice_def per_tok_slice_ok)

lemma dict_comp_per_tok:
  assumes "row_present reps ss i"
  shows "dict_comp (per_tok_slice ss i) reps =
         Inr (map (\<lambda>(l, t). (l, take (length (ss ! i)) (drop 1 (t ! i)))) reps)"
  by (rule dict_comp_map) (use row_presentD[OF assms] in \<open>auto simp: per_tok_slice_ok\<close>)

lemma dict_comp_mean:
  assumes "row_present reps ss i"
  shows "dict_comp (mean_slice env ss i) reps =
         Inr (map (\<lambda>(l, t). (l, mean_axis0 env (take (length (ss ! i)) (drop 1 (t ! i))))) reps)"
  by (rule dict_comp_map) (use row_presentD[OF assms] in \<open>auto simp: mean_slice_ok\<close>)

lemma dict_comp_bos:
  assumes "row_present reps ss i"
  shows "dict_comp (bos_slice i) reps = Inr (map (\<lambda>(l, t). (l, t ! i ! 0)) reps)"
proof (rule dict_comp_map, rule ballI)
  fix kv assume "kv \<in> set reps"
  then have "(fst kv, snd kv) \<in> set reps" by simp
  from row_presentD(2,3)[OF assms this] show "bos_slice i (snd kv) = Inr (snd kv ! i ! 0)"
    by (cases "snd kv ! i") (simp_all add: bos_slice_def)
qed

lemma overwrite_result_last:
  assumes "row_present reps ss i" "reps \<noteq> []"
  shows "overwrite_result ss i reps st =
         Inr (st\<lparr>result := Some (Matrix (take (length (ss ! i)) (drop 1 (snd (last reps) ! i))))\<rparr>)"
  using assms
proof (induction reps arbitrary: st)
  case Nil
  then show ?case by simp
next
  case (Cons kv kvs)
  obtain l t where kv: "kv = (l, t)" by (cases kv)
  from Cons.prems(1) have here: "i < length ss" "i < length t"
    and rest: "row_present kvs ss i"
    by (auto simp: row_present_def kv)
  show ?case
  proof (cases "kvs = []")
    case True
    with here show ?thesis by (simp add: kv per_tok_slice_ok)
  next
    case False
    with Cons.IH[OF rest False] here show ?thesis
      by (simp add: kv per_tok_slice_ok)
  qed
qed

text \<open>
  What the loop body does for one sequence whose tensors have the expected shape, when no
  call into the environment fails: in the structured mode and in the raw-array mode with
  \<^verbatim>\<open>per_tok\<close>.
\<close>

lemma process_sequence_dict_mode:
  assumes npy: "\<not> npy_mode a" and wf: "row_present reps ss i"
    and mk: "\<not> io_fails env (Mkdir (Parent (output_file a lbl)))"
    and sv: "\<And>v. \<not> io_fails env (TorchSave (output_file a lbl) v)"
  defines "n \<equiv> length (ss ! i)"
  defines "d \<equiv> \<lparr>label = lbl,
      representations = (if ''per_tok'' \<in> set (include_kinds a)
        then Some (map (\<lambda>(l, t). (l, take n (drop 1 (t ! i)))) reps) else None),
      mean_representations = (if ''mean'' \<in> set (include_kinds a)
        then Some (map (\<lambda>(l, t). (l, mean_axis0 env (take n (drop 1 (t ! i))))) reps) else None),
      bos_representations = (if ''bos'' \<in> set (include_kinds a)
        then Some (map (\<lambda>(l, t). (l, t ! i ! 0)) reps) else None)\<rparr>"
  shows "process_sequence env a reps ss i lbl st =
         Inr (st\<lparr>trace := trace st @ [Mkdir (Parent (output_file a lbl)),
                                       TorchSave (output_file a lbl) (Dict d)],
                 result := Some (Dict d)\<rparr>)"
  using npy mk sv unfolding n_def d_def
  by (simp add: process_sequence_def and_then_def perform_def init_result_def per_tok_step_def
      mean_step_def bos_step_def save_step_def set_item_def
      dict_comp_per_tok[OF wf] dict_comp_mean[OF wf] dict_comp_bos[OF wf])

lemma process_sequence_npy_mode:
  assumes npy: "npy_mode a" and pt: "''per_tok'' \<in> set (include_kinds a)"
    and wf: "row_present reps ss i" and ne: "reps \<noteq> []"
    and mk: "\<not> io_fails env (Mkdir (Parent (output_file a lbl)))"
    and sv: "\<And>v. \<not> io_fails env (NpSave (output_file a lbl) v)"
  defines "m \<equiv> take (length (ss ! i)) (drop 1 (snd (last reps) ! i))"
  shows "process_sequence env a reps ss i lbl st =
         Inr (st\<lparr>trace := trace st @ [Mkdir (Parent (output_file a lbl)),
                                       NpSave (output_file a lbl) (Matrix m)],
                 result := Some (Matrix m)\<rparr>)"
  using npy pt mk sv unfolding m_def
  by (simp add: process_sequence_def and_then_def perform_def init_result_def per_tok_step_def
      mean_step_def bos_step_def save_step_def detach_numpy_def
      overwrite_result_last[OF wf ne])

lemma slice_length:
  "n < length r \<Longrightarrow> length (take n (drop 1 r)) = n"
  by simp

lemma slice_nth:
  "n < length r \<Longrightarrow> p < n \<Longrightarrow> take n (drop 1 r) ! p = r ! Suc p"
  by simp

lemma process_sequence_dict_mode_fields:
  assumes "\<not> npy_mode a" and "row_present reps ss i"
    and "\<not> io_fails env (Mkdir (Parent (output_file a lbl)))"
    and "\<And>v. \<not> io_fails env (TorchSave (output_file a lbl) v)"
  shows "\<exists>d. process_sequence env a reps ss i lbl st =
           Inr (st\<lparr>trace := trace st @ [Mkdir (Parent (output_file a lbl)),
                                         TorchSave (output_file a lbl) (Dict d)],
                   result := Some (Dict d)\<rparr>) \<and>
           label d = lbl \<and>
           representations d = (if ''per_tok'' \<in> set (include_kinds a)
             then Some (map (\<lambda>(l, t). (l, take (length (ss ! i)) (drop 1 (t ! i)))) reps)
             else None) \<and>
           mean_representations d = (if ''mean'' \<in> set (include_kinds a)
             then Some (map (\<lambda>(l, t). (l, mean_axis0 env (take (length (ss ! i)) (drop 1 (t ! i))))) reps)
             else None) \<and>
           bos_representations d = (if ''bos'' \<in> set (include_kinds a)
             then Some (map (\<lambda>(l, t). (l, t ! i ! 0)) reps) else None)"
  apply (rule exI)
  apply (intro conjI)
      apply (rule process_sequence_dict_mode[OF assms])
     apply simp_all
  done

text \<open>
  Claim C1, as amended. In \<^verbatim>\<open>extract_arrays.py\<close>, with \<^verbatim>\<open>npy_array\<close> and \<^verbatim>\<open>per_tok\<close> both
  requested, the variable \<^verbatim>\<open>result\<close> is overwritten once per layer, so the one array passed
  to \<^verbatim>\<open>np.save\<close> for the sequence is the per-token slice of the last layer in the
  iteration order of the representations that the model returns, which need not be the
  layer requested last; no other layer, and no mean or beginning-of-sequence vector,
  whatever else is requested, reaches the file.
\<close>

theorem npy_array_keeps_last_iterated_layer:
  assumes "''npy_array'' \<in> set (include_kinds a)" and "''per_tok'' \<in> set (include_kinds a)"
    and "row_present reps ss i" and "reps \<noteq> []"
    and "\<not> io_fails env (Mkdir (Parent (Div (output_dir a) lbl)))"
    and "\<forall>v. \<not> io_fails env (NpSave (Div (output_dir a) lbl) v)"
  shows "process_sequence env a reps ss i lbl st =
         Inr (st\<lparr>trace := trace st @
                   [Mkdir (Parent (Div (output_dir a) lbl)),
                    NpSave (Div (output_dir a) lbl)
                      (Matrix (take (length (ss ! i)) (drop 1 (snd (last reps) ! i))))],
                 result := Some (Matrix (take (length (ss ! i)) (drop 1 (snd (last reps) ! i))))\<rparr>)"
proof -
  from assms(1) have npy: "npy_mode a" by (simp add: npy_mode_def)
  then have f: "output_file a lbl = Div (output_dir a) lbl" by (simp add: output_file_def)
  from process_sequence_npy_mode[OF npy assms(2,3,4), of env lbl st] assms(5,6)
  show ?thesis by (simp add: f)
qed

theorem npy_array_keeps_last_iterated_layer_witness:
  "process_sequence \<lparr>num_layers = 1, forward = (\<lambda>t rl. []), mean_axis0 = (\<lambda>m. []), io_fails = (\<lambda>ev::real event. False)\<rparr>
     \<lparr>output_dir = Path ''out'', repr_layers = [0, 1],
      include_kinds = [''npy_array'', ''per_tok'', ''mean'', ''bos'']\<rparr>
     [(0, [[[1, 2], [3, 4], [5, 6], [0, 0]]]), (1, [[[10, 20], [30, 40], [50, 60], [0, 0]]])]
     [''MK''] 0 ''s1'' \<lparr>trace = [], result = None\<rparr> =
   Inr \<lparr>trace = [Mkdir (Parent (Div (Path ''out'') ''s1'')),
                 NpSave (Div (Path ''out'') ''s1'') (Matrix [[30, 40], [50, 60]])],
        result = Some (Matrix [[30, 40], [50, 60]])\<rparr>"
  using npy_array_keeps_last_iterated_layer
    [of "\<lparr>output_dir = Path ''out'', repr_layers = [0, 1],
          include_kinds = [''npy_array'', ''per_tok'', ''mean'', ''bos'']\<rparr>"
        "[(0, [[[1, 2], [3, 4], [5, 6], [0, 0]]]), (1, [[[10, 20], [30, 40], [50, 60], [0, 0]]])]"
        "[''MK'']" 0
        "\<lparr>num_layers = 1, forward = (\<lambda>t rl. []), mean_axis0 = (\<lambda>m. []), io_fails = (\<lambda>ev::real event. False)\<rparr>"
        "''s1''" "\<lparr>trace = [], result = None\<rparr>"]
  by (simp add: row_present_def)

text \<open>
  Counterexample to claim C1 as stated: with \<^verbatim>\<open>--repr_layers 2 1\<close> and a model that fills
  its representations in ascending layer order, the array saved for the sequence is the
  slice of layer 2, while the layer requested last is layer 1, whose slice is another.
\<close>

theorem npy_array_saves_not_last_requested_layer:
  "filter is_save (trace (final_state
     (main_arrays
        \<lparr>num_layers = 2,
         forward = (\<lambda>t rl. filter (\<lambda>kv. fst kv \<in> set rl)
           [(0, [[[0, 0], [7, 7], [8, 8]]]), (1, [[[1, 2], [3, 4], [5, 6]]]),
            (2, [[[10, 20], [30, 40], [50, 60]]])]),
         mean_axis0 = (\<lambda>m. []), io_fails = (\<lambda>ev::real event. False)\<rparr>
        \<lparr>output_dir = Path ''out'', repr_layers = [2, 1],
         include_kinds = [''npy_array'', ''per_tok'']\<rparr>
        [\<lparr>labels = [''s1''], strs = [''MK''], toks = [[0, 5, 6]]\<rparr>]))) =
     [NpSave (Div (Path ''out'') ''s1'') (Matrix [[30, 40], [50, 60]])] \<and>
   last (repr_layers \<lparr>output_dir = Path ''out'', repr_layers = [2, 1],
         include_kinds = [''npy_array'', ''per_tok'']\<rparr>) = 1 \<and>
   map_of (forward
        \<lparr>num_layers = 2,
         forward = (\<lambda>t rl. filter (\<lambda>kv. fst kv \<in> set rl)
           [(0, [[[0, 0], [7, 7], [8, 8]]]), (1, [[[1, 2], [3, 4], [5, 6]]]),
            (2, [[[10, 20], [30, 40], [50, 60]]])]),
         mean_axis0 = (\<lambda>m. []), io_fails = (\<lambda>ev::real event. False)\<rparr>
        [[0, 5, 6]] [2, 1]) 1 = Some [[[1, 2], [3, 4], [5, 6]]] \<and>
   take (length ''MK'') (drop 1 ([[[1, 2], [3, 4], [5, 6]]] ! 0)) = [[3, 4], [5, 6 :: real]] \<and>
   [[3, 4], [5, 6]] \<noteq> [[30, 40], [50, 60 :: real]]"
  by (simp add: main_arrays_def perform_def and_then_def normalize_layers_def layer_in_range_def
      canonical_layer_def process_batch_def process_sequence_def output_file_def npy_mode_def
      init_result_def per_tok_step_def mean_step_def bos_step_def save_step_def
      detach_numpy_def per_tok_slice_def strs_len_def tslice_def final_state_def)

text \<open>
  Claim C4. With \<^verbatim>\<open>per_tok\<close> requested, what is saved for sequence \<open>i\<close> holds, for every
  layer of the representations (in the raw-array mode: for the one layer that is kept), the
  rows \<open>1, \<dots>, n\<close> of the layer tensor's row \<open>i\<close>, where \<open>n\<close> is the length of the
  sequence's string: the beginning-of-sequence position \<open>0\<close> and every position after
  \<open>n\<close> are left out, and the slice has length \<open>n\<close>.
\<close>

theorem per_tok_slice_covers_residues:
  assumes "''per_tok'' \<in> set (include_kinds a)" and "row_present reps ss i"
    and "npy_mode a \<longrightarrow> reps \<noteq> []"
    and "\<not> io_fails env (Mkdir (Parent (output_file a lbl)))"
    and "\<forall>v. \<not> io_fails env (TorchSave (output_file a lbl) v) \<and>
             \<not> io_fails env (NpSave (output_file a lbl) v)"
  shows "(\<exists>v. process_sequence env a reps ss i lbl st =
           Inr (st\<lparr>trace := trace st @
                     [Mkdir (Parent (output_file a lbl)),
                      (if npy_mode a then NpSave else TorchSave) (output_file a lbl) v],
                   result := Some v\<rparr>) \<and>
           (if npy_mode a
            then v = Matrix (take (length (ss ! i)) (drop 1 (snd (last reps) ! i)))
            else \<exists>d. v = Dict d \<and> representations d =
                   Some (map (\<lambda>(l, t). (l, take (length (ss ! i)) (drop 1 (t ! i)))) reps))) \<and>
         (\<forall>(l, t)\<in>set reps.
            length (take (length (ss ! i)) (drop 1 (t ! i))) = length (ss ! i) \<and>
            (\<forall>p<length (ss ! i). take (length (ss ! i)) (drop 1 (t ! i)) ! p = t ! i ! Suc p))"
proof (intro conjI)
  show "\<exists>v. process_sequence env a reps ss i lbl st =
           Inr (st\<lparr>trace := trace st @
                     [Mkdir (Parent (output_file a lbl)),
                      (if npy_mode a then NpSave else TorchSave) (output_file a lbl) v],
                   result := Some v\<rparr>) \<and>
           (if npy_mode a
            then v = Matrix (take (length (ss ! i)) (drop 1 (snd (last reps) ! i)))
            else \<exists>d. v = Dict d \<and> representations d =
                   Some (map (\<lambda>(l, t). (l, take (length (ss ! i)) (drop 1 (t ! i)))) reps))"
  proof (cases "npy_mode a")
    case True
    with assms(3) have ne: "reps \<noteq> []" by simp
    from process_sequence_npy_mode[OF True assms(1,2) ne assms(4), of st] assms(5) True
    show ?thesis by simp
  next
    case False
    from assms(5) have sv: "\<And>v. \<not> io_fails env (TorchSave (output_file a lbl) v)" by simp
    from process_sequence_dict_mode_fields[OF False assms(2,4) sv, of st]
    obtain d where "process_sequence env a reps ss i lbl st =
           Inr (st\<lparr>trace := trace st @ [Mkdir (Parent (output_file a lbl)),
                                         TorchSave (output_file a lbl) (Dict d)],
                   result := Some (Dict d)\<rparr>)"
      "representations d = Some (map (\<lambda>(l, t). (l, take (length (ss ! i)) (drop 1 (t ! i)))) reps)"
      using assms(1) by auto
    with False show ?thesis by auto
  qed
  show "\<forall>(l, t)\<in>set reps.
            length (take (length (ss ! i)) (drop 1 (t ! i))) = length (ss ! i) \<and>
            (\<forall>p<length (ss ! i). take (length (ss ! i)) (drop 1 (t ! i)) ! p = t ! i ! Suc p)"
  proof (intro ballI, clarify)
    fix l t assume "(l, t) \<in> set reps"
    from row_presentD(3)[OF assms(2) this]
    show "length (take (length (ss ! i)) (drop 1 (t ! i))) = length (ss ! i) \<and>
            (\<forall>p<length (ss ! i). take (length (ss ! i)) (drop 1 (t ! i)) ! p = t ! i ! Suc p)"
      using slice_length slice_nth by blast
  qed
qed

theorem per_tok_slice_covers_residues_witness:
  "\<exists>d. process_sequence \<lparr>num_layers = 1, forward = (\<lambda>t rl. []), mean_axis0 = (\<lambda>m. []), io_fails = (\<lambda>ev::real event. False)\<rparr>
     \<lparr>output_dir = Path ''out'', repr_layers = [0, 1], include_kinds = [''per_tok'']\<rparr>
     [(0, [[[1, 2], [3, 4], [5, 6], [0, 0]]]), (1, [[[10, 20], [30, 40], [50, 60], [0, 0]]])]
     [''MK''] 0 ''s1'' \<lparr>trace = [], result = None\<rparr> =
       Inr \<lparr>trace = [Mkdir (Parent (Div (Path ''out'') ''s1.pt'')),
                     TorchSave (Div (Path ''out'') ''s1.pt'') (Dict d)],
            result = Some (Dict d)\<rparr> \<and>
     representations d = Some [(0, [[3, 4], [5, 6]]), (1, [[30, 40], [50, 60]])]"
  using per_tok_slice_covers_residues
    [of "\<lparr>output_dir = Path ''out'', repr_layers = [0, 1], include_kinds = [''per_tok'']\<rparr>"
        "[(0, [[[1, 2], [3, 4], [5, 6], [0, 0]]]), (1, [[[10, 20], [30, 40], [50, 60], [0, 0]]])]"
        "[''MK'']" 0
        "\<lparr>num_layers = 1, forward = (\<lambda>t rl. []), mean_axis0 = (\<lambda>m. []), io_fails = (\<lambda>ev::real event. False)\<rparr>"
        "''s1''" "\<lparr>trace = [], result = None\<rparr>"]
  by (auto simp: row_present_def npy_mode_def output_file_def)

text \<open>
  The mean entries of the structured mode. With \<^verbatim>\<open>mean\<close> requested, the saved mean entry
  of every layer is the library's \<^verbatim>\<open>.mean(0)\<close> applied to the slice \<^verbatim>\<open>t[i, 1 : n + 1]\<close>,
  the very slice that \<^verbatim>\<open>per_tok\<close> saves for that layer, one vector per layer. What the
  library's reduction computes on floating-point entries is not part of the scripts.
\<close>

lemma mean_entry_is_library_mean_of_per_tok_slice:
  assumes "''mean'' \<in> set (include_kinds a)" and "\<not> npy_mode a" and "row_present reps ss i"
    and "\<not> io_fails env (Mkdir (Parent (output_file a lbl)))"
    and "\<forall>v. \<not> io_fails env (TorchSave (output_file a lbl) v)"
  shows "\<exists>d. process_sequence env a reps ss i lbl st =
           Inr (st\<lparr>trace := trace st @ [Mkdir (Parent (output_file a lbl)),
                                         TorchSave (output_file a lbl) (Dict d)],
                   result := Some (Dict d)\<rparr>) \<and>
           mean_representations d =
             Some (map (\<lambda>(l, t). (l, mean_axis0 env (take (length (ss ! i)) (drop 1 (t ! i))))) reps) \<and>
           (''per_tok'' \<in> set (include_kinds a) \<longrightarrow>
              (\<exists>pt. representations d = Some pt \<and>
                    mean_representations d = Some (map (\<lambda>(l, m). (l, mean_axis0 env m)) pt)))"
proof -
  from assms(5) have sv: "\<And>v. \<not> io_fails env (TorchSave (output_file a lbl) v)" by simp
  from process_sequence_dict_mode_fields[OF assms(2,3,4) sv, of st]
  obtain d where run: "process_sequence env a reps ss i lbl st =
           Inr (st\<lparr>trace := trace st @ [Mkdir (Parent (output_file a lbl)),
                                         TorchSave (output_file a lbl) (Dict d)],
                   result := Some (Dict d)\<rparr>)"
    and pt: "representations d = (if ''per_tok'' \<in> set (include_kinds a)
             then Some (map (\<lambda>(l, t). (l, take (length (ss ! i)) (drop 1 (t ! i)))) reps)
             else None)"
    and mn: "mean_representations d =
             Some (map (\<lambda>(l, t). (l, mean_axis0 env (take (length (ss ! i)) (drop 1 (t ! i))))) reps)"
    using assms(1) by auto
  have same: "''per_tok'' \<in> set (include_kinds a) \<longrightarrow>
              (\<exists>pt. representations d = Some pt \<and>
                    mean_representations d = Some (map (\<lambda>(l, m). (l, mean_axis0 env m)) pt))"
    by (simp add: pt mn comp_def case_prod_unfold)
  from run mn same show ?thesis by blast
qed

text \<open>
  Claim C6. With \<^verbatim>\<open>bos\<close> requested in the structured mode of \<^verbatim>\<open>extract_arrays.py\<close>, the
  saved beginning-of-sequence entry of every layer is the vector at position \<open>0\<close> of the
  layer tensor's row for the sequence, whatever the sequence's length.
\<close>

theorem bos_is_position_zero:
  assumes "''bos'' \<in> set (include_kinds a)" and "\<not> npy_mode a" and "row_present reps ss i"
    and "\<not> io_fails env (Mkdir (Parent (output_file a lbl)))"
    and "\<forall>v. \<not> io_fails env (TorchSave (output_file a lbl) v)"
  shows "\<exists>d. process_sequence env a reps ss i lbl st =
           Inr (st\<lparr>trace := trace st @ [Mkdir (Parent (output_file a lbl)),
                                         TorchSave (output_file a lbl) (Dict d)],
                   result := Some (Dict d)\<rparr>) \<and>
           bos_representations d = Some (map (\<lambda>(l, t). (l, t ! i ! 0)) reps)"
proof -
  from assms(5) have sv: "\<And>v. \<not> io_fails env (TorchSave (output_file a lbl) v)" by simp
  from process_sequence_dict_mode_fields[OF assms(2,3,4) sv, of st] assms(1)
  show ?thesis by auto
qed

theorem bos_is_position_zero_witness:
  "\<exists>d. process_sequence \<lparr>num_layers = 1, forward = (\<lambda>t rl. []), mean_axis0 = (\<lambda>m. []), io_fails = (\<lambda>ev::real event. False)\<rparr>
     \<lparr>output_dir = Path ''out'', repr_layers = [0, 1], include_kinds = [''bos'']\<rparr>
     [(0, [[[1, 2], [3, 4], [5, 6], [0, 0]]]), (1, [[[10, 20], [30, 40], [50, 60], [0, 0]]])]
     [''MK''] 0 ''s1'' \<lparr>trace = [], result = None\<rparr> =
       Inr \<lparr>trace = [Mkdir (Parent (Div (Path ''out'') ''s1.pt'')),
                     TorchSave (Div (Path ''out'') ''s1.pt'') (Dict d)],
            result = Some (Dict d)\<rparr> \<and>
     bos_representations d = Some [(0, [1, 2]), (1, [10, 20])]"
  using bos_is_position_zero
    [of "\<lparr>output_dir = Path ''out'', repr_layers = [0, 1], include_kinds = [''bos'']\<rparr>"
        "[(0, [[[1, 2], [3, 4], [5, 6], [0, 0]]]), (1, [[[10, 20], [30, 40], [50, 60], [0, 0]]])]"
        "[''MK'']" 0
        "\<lparr>num_layers = 1, forward = (\<lambda>t rl. []), mean_axis0 = (\<lambda>m. []), io_fails = (\<lambda>ev::real event. False)\<rparr>"
        "''s1''" "\<lparr>trace = [], result = None\<rparr>"]
  by (auto simp: row_present_def npy_mode_def output_file_def)

text \<open>
  Claim C7, as amended. In \<^verbatim>\<open>extract_arrays.py\<close>, for a sequence whose tensors have the
  expected shape and whose calls into the environment succeed, the loop body creates the
  parent directory of the output file and then saves exactly once. In the structured mode
  the file is the output directory joined with the label followed by \<^verbatim>\<open>.pt\<close>, and its
  content is the dict with the label and one entry per requested kind; in the raw-array
  mode (with \<^verbatim>\<open>per_tok\<close> requested) the path passed to \<^verbatim>\<open>np.save\<close> is the output directory
  joined with the label, and the content is a single array.
\<close>

theorem one_save_per_sequence_amended:
  assumes "row_present reps ss i"
    and "npy_mode a \<longrightarrow> ''per_tok'' \<in> set (include_kinds a) \<and> reps \<noteq> []"
    and "\<not> io_fails env (Mkdir (Parent (output_file a lbl)))"
    and "\<forall>v. \<not> io_fails env (TorchSave (output_file a lbl) v) \<and>
             \<not> io_fails env (NpSave (output_file a lbl) v)"
  shows "if npy_mode a then
           (\<exists>m. process_sequence env a reps ss i lbl st =
              Inr (st\<lparr>trace := trace st @
                        [Mkdir (Parent (Div (output_dir a) lbl)),
                         NpSave (Div (output_dir a) lbl) (Matrix m)],
                      result := Some (Matrix m)\<rparr>))
         else
           (\<exists>d. process_sequence env a reps ss i lbl st =
              Inr (st\<lparr>trace := trace st @
                        [Mkdir (Parent (Div (output_dir a) (lbl @ ''.pt''))),
                         TorchSave (Div (output_dir a) (lbl @ ''.pt'')) (Dict d)],
                      result := Some (Dict d)\<rparr>) \<and>
              label d = lbl \<and>
              (representations d \<noteq> None \<longleftrightarrow> ''per_tok'' \<in> set (include_kinds a)) \<and>
              (mean_representations d \<noteq> None \<longleftrightarrow> ''mean'' \<in> set (include_kinds a)) \<and>
              (bos_representations d \<noteq> None \<longleftrightarrow> ''bos'' \<in> set (include_kinds a)))"
proof (cases "npy_mode a")
  case True
  then have f: "output_file a lbl = Div (output_dir a) lbl" by (simp add: output_file_def)
  from True assms(2) have pt: "''per_tok'' \<in> set (include_kinds a)" and ne: "reps \<noteq> []"
    by simp_all
  from assms(4) have sv: "\<And>v. \<not> io_fails env (NpSave (output_file a lbl) v)" by simp
  have "\<exists>m. process_sequence env a reps ss i lbl st =
              Inr (st\<lparr>trace := trace st @
                        [Mkdir (Parent (Div (output_dir a) lbl)),
                         NpSave (Div (output_dir a) lbl) (Matrix m)],
                      result := Some (Matrix m)\<rparr>)"
    by (rule exI, rule process_sequence_npy_mode[OF True pt assms(1) ne assms(3) sv, unfolded f])
  with True show ?thesis by (simp only: if_True)
next
  case False
  then have f: "output_file a lbl = Div (output_dir a) (lbl @ ''.pt'')"
    by (simp add: output_file_def)
  from assms(4) have sv: "\<And>v. \<not> io_fails env (TorchSave (output_file a lbl) v)" by simp
  from process_sequence_dict_mode_fields[OF False assms(1,3) sv, of st]
  obtain d where "process_sequence env a reps ss i lbl st =
           Inr (st\<lparr>trace := trace st @ [Mkdir (Parent (output_file a lbl)),
                                         TorchSave (output_file a lbl) (Dict d)],
                   result := Some (Dict d)\<rparr>)"
    "label d = lbl"
    "representations d \<noteq> None \<longleftrightarrow> ''per_tok'' \<in> set (include_kinds a)"
    "mean_representations d \<noteq> None \<longleftrightarrow> ''mean'' \<in> set (include_kinds a)"
    "bos_representations d \<noteq> None \<longleftrightarrow> ''bos'' \<in> set (include_kinds a)"
    by auto
  with False show ?thesis unfolding f by auto
qed

theorem one_save_per_sequence_amended_witness:
  "\<exists>d. process_sequence \<lparr>num_layers = 1, forward = (\<lambda>t rl. []), mean_axis0 = (\<lambda>m. []), io_fails = (\<lambda>ev::real event. False)\<rparr>
     \<lparr>output_dir = Path ''out'', repr_layers = [0, 1], include_kinds = [''bos'', ''mean'']\<rparr>
     [(0, [[[1, 2], [3, 4], [5, 6], [0, 0]]]), (1, [[[10, 20], [30, 40], [50, 60], [0, 0]]])]
     [''MK''] 0 ''dir/s1'' \<lparr>trace = [], result = None\<rparr> =
       Inr \<lparr>trace = [Mkdir (Parent (Div (Path ''out'') ''dir/s1.pt'')),
                     TorchSave (Div (Path ''out'') ''dir/s1.pt'') (Dict d)],
            result = Some (Dict d)\<rparr> \<and>
     label d = ''dir/s1'' \<and> representations d = None \<and>
     mean_representations d \<noteq> None \<and> bos_representations d \<noteq> None"
  using one_save_per_sequence_amended
    [of "[(0, [[[1, 2], [3, 4], [5, 6], [0, 0]]]), (1, [[[10, 20], [30, 40], [50, 60], [0, 0]]])]"
        "[''MK'']" 0
        "\<lparr>output_dir = Path ''out'', repr_layers = [0, 1], include_kinds = [''bos'', ''mean'']\<rparr>"
        "\<lparr>num_layers = 1, forward = (\<lambda>t rl. []), mean_axis0 = (\<lambda>m. []), io_fails = (\<lambda>ev::real event. False)\<rparr>"
        "''dir/s1''" "\<lparr>trace = [], result = None\<rparr>"]
  by (auto simp: row_present_def npy_mode_def)

text \<open>
  Counterexample to claim C7 as stated: in the structured mode the one file saved for the
  sequence labelled \<^verbatim>\<open>s1\<close> is \<^verbatim>\<open>out/s1.pt\<close>, not the output directory joined with
  the label.
\<close>

theorem structured_save_path_has_suffix:
  "map event_path (filter is_save (trace (final_state
     (main_arrays
        \<lparr>num_layers = 1, forward = (\<lambda>t rl. [(1, [[[1, 2], [3, 4], [5, 6], [0, 0]]])]),
         mean_axis0 = (\<lambda>m. []), io_fails = (\<lambda>ev::real event. False)\<rparr>
        \<lparr>output_dir = Path ''out'', repr_layers = [- 1], include_kinds = [''per_tok'']\<rparr>
        [\<lparr>labels = [''s1''], strs = [''MK''], toks = [[0, 5, 6, 2]]\<rparr>])))) =
     [Some (Div (Path ''out'') ''s1.pt'')] \<and>
   Div (Path ''out'') ''s1.pt'' \<noteq> Div (Path ''out'') ''s1''"
  by (simp add: main_arrays_def perform_def and_then_def normalize_layers_def layer_in_range_def
      canonical_layer_def process_batch_def process_sequence_def output_file_def npy_mode_def
      init_result_def per_tok_step_def mean_step_def bos_step_def save_step_def set_item_def
      per_tok_slice_def strs_len_def tslice_def final_state_def)

section \<open>Exceptions and the trace\<close>

lemma and_then_Inl_iff:
  "and_then r f = Inl x \<longleftrightarrow> r = Inl x \<or> (\<exists>s. r = Inr s \<and> f s = Inl x)"
  by (cases r) (simp_all add: and_then_def)

lemma and_then_Inr_iff:
  "and_then r f = Inr y \<longleftrightarrow> (\<exists>s. r = Inr s \<and> f s = Inr y)"
  by (cases r) (simp_all add: and_then_def)

lemma perform_Inl: "perform env ev st = Inl (e, s) \<Longrightarrow> e = LibraryError ev \<and> s = st"
  by (auto simp: perform_def split: if_splits)

lemma perform_Inr: "perform env ev st = Inr s \<Longrightarrow> s = st\<lparr>trace := trace st @ [ev]\<rparr>"
  by (auto simp: perform_def split: if_splits)

lemma init_result_Inr: "init_result a lbl st = Inr s \<Longrightarrow> trace s = trace st"
  by (auto simp: init_result_def split: if_splits)

lemma init_result_Inl: "init_result a lbl st \<noteq> Inl x"
  by (auto simp: init_result_def split: if_splits)

lemma set_item_Inr: "set_item upd st = Inr s \<Longrightarrow> trace s = trace st"
  by (auto simp: set_item_def split: option.splits pyval.splits)

lemma set_item_Inl: "set_item upd st = Inl (e, s) \<Longrightarrow> e \<noteq> LibraryError ev"
  by (auto simp: set_item_def split: option.splits pyval.splits)

lemma per_tok_slice_Inl: "per_tok_slice ss i t = Inl e \<Longrightarrow> e = IndexError"
  by (auto simp: per_tok_slice_def strs_len_def tslice_def split: if_splits sum.splits)

lemma mean_slice_Inl: "mean_slice env ss i t = Inl e \<Longrightarrow> e = IndexError"
  by (auto simp: mean_slice_def split: sum.splits dest: per_tok_slice_Inl)

lemma bos_slice_Inl: "bos_slice i t = Inl e \<Longrightarrow> e = IndexError"
  by (auto simp: bos_slice_def split: if_splits)

lemma dict_comp_Inl:
  "dict_comp f reps = Inl e \<Longrightarrow> \<exists>kv\<in>set reps. f (snd kv) = Inl e"
  by (induction reps) (auto split: sum.splits)

lemma overwrite_result_Inr: "overwrite_result ss i reps st = Inr s \<Longrightarrow> trace s = trace st"
  by (induction reps arbitrary: st) (auto split: sum.splits)

lemma overwrite_result_Inl: "overwrite_result ss i reps st = Inl (e, s) \<Longrightarrow> e = IndexError"
  by (induction reps arbitrary: st) (auto split: sum.splits dest: per_tok_slice_Inl)

lemma detach_numpy_Inr: "detach_numpy st = Inr s \<Longrightarrow> s = st"
  by (auto simp: detach_numpy_def split: option.splits pyval.splits)

lemma detach_numpy_Inl: "detach_numpy st = Inl (e, s) \<Longrightarrow> e \<noteq> LibraryError ev"
  by (auto simp: detach_numpy_def split: option.splits pyval.splits)

lemma per_tok_step_Inr: "per_tok_step a reps ss i st = Inr s \<Longrightarrow> trace s = trace st"
  by (auto simp: per_tok_step_def and_then_Inr_iff split: if_splits sum.splits
      dest: set_item_Inr overwrite_result_Inr detach_numpy_Inr)

lemma per_tok_step_Inl: "per_tok_step a reps ss i st = Inl (e, s) \<Longrightarrow> e \<noteq> LibraryError ev"
  by (auto simp: per_tok_step_def and_then_Inl_iff split: if_splits sum.splits
      dest: set_item_Inl overwrite_result_Inl detach_numpy_Inl dict_comp_Inl per_tok_slice_Inl)

lemma mean_step_Inr: "mean_step env a reps ss i st = Inr s \<Longrightarrow> trace s = trace st"
  by (auto simp: mean_step_def split: if_splits sum.splits dest: set_item_Inr)

lemma mean_step_Inl: "mean_step env a reps ss i st = Inl (e, s) \<Longrightarrow> e \<noteq> LibraryError ev"
  by (auto simp: mean_step_def split: if_splits sum.splits
      dest: set_item_Inl dict_comp_Inl mean_slice_Inl)

lemma bos_step_Inr: "bos_step a reps i st = Inr s \<Longrightarrow> trace s = trace st"
  by (auto simp: bos_step_def split: if_splits sum.splits dest: set_item_Inr)

lemma bos_step_Inl: "bos_step a reps i st = Inl (e, s) \<Longrightarrow> e \<noteq> LibraryError ev"
  by (auto simp: bos_step_def split: if_splits sum.splits
      dest: set_item_Inl dict_comp_Inl bos_slice_Inl)

lemma save_step_Inl:
  "save_step env a lbl st = Inl (LibraryError ev, s) \<Longrightarrow>
   s = st \<and> is_save ev \<and> event_path ev = Some (output_file a lbl)"
  by (auto simp: save_step_def split: option.splits if_splits dest: perform_Inl)

text \<open>
  When the loop body raises the error of a failed save, the state it leaves is the state
  it started from with the creation of the parent directory added to the trace.
\<close>

lemma process_sequence_save_fails:
  assumes "process_sequence env a reps ss i lbl st = Inl (LibraryError ev, st')"
    and "is_save ev"
  shows "trace st' = trace st @ [Mkdir (Parent (output_file a lbl))] \<and>
         event_path ev = Some (output_file a lbl)"
proof -
  from assms(1) consider
      (mk) "perform env (Mkdir (Parent (output_file a lbl))) st = Inl (LibraryError ev, st')"
    | (go) s1 where "perform env (Mkdir (Parent (output_file a lbl))) st = Inr s1"
        "and_then (init_result a lbl s1) (\<lambda>st.
           and_then (per_tok_step a reps ss i st) (\<lambda>st.
           and_then (mean_step env a reps ss i st) (\<lambda>st.
           and_then (bos_step a reps i st) (\<lambda>st.
           save_step env a lbl st)))) = Inl (LibraryError ev, st')"
    unfolding process_sequence_def and_then_Inl_iff[of "perform env _ st"] by blast
  then show ?thesis
  proof cases
    case mk
    from perform_Inl[OF mk] assms(2) show ?thesis by auto
  next
    case go
    from perform_Inr[OF go(1)] have t1: "trace s1 = trace st @ [Mkdir (Parent (output_file a lbl))]"
      by simp
    from go(2) init_result_Inl obtain s2 where s2: "init_result a lbl s1 = Inr s2"
      and r2: "and_then (per_tok_step a reps ss i s2) (\<lambda>st.
           and_then (mean_step env a reps ss i st) (\<lambda>st.
           and_then (bos_step a reps i st) (\<lambda>st.
           save_step env a lbl st))) = Inl (LibraryError ev, st')"
      unfolding and_then_Inl_iff[of "init_result a lbl s1"] by blast
    from r2 per_tok_step_Inl obtain s3 where s3: "per_tok_step a reps ss i s2 = Inr s3"
      and r3: "and_then (mean_step env a reps ss i s3) (\<lambda>st.
           and_then (bos_step a reps i st) (\<lambda>st.
           save_step env a lbl st)) = Inl (LibraryError ev, st')"
      unfolding and_then_Inl_iff[of "per_tok_step a reps ss i s2"] by blast
    from r3 mean_step_Inl obtain s4 where s4: "mean_step env a reps ss i s3 = Inr s4"
      and r4: "and_then (bos_step a reps i s4) (\<lambda>st.
           save_step env a lbl st) = Inl (LibraryError ev, st')"
      unfolding and_then_Inl_iff[of "mean_step env a reps ss i s3"] by blast
    from r4 bos_step_Inl obtain s5 where s5: "bos_step a reps i s4 = Inr s5"
      and r5: "save_step env a lbl s5 = Inl (LibraryError ev, st')"
      unfolding and_then_Inl_iff[of "bos_step a reps i s4"] by blast
    have "trace s5 = trace s1"
      using init_result_Inr[OF s2] per_tok_step_Inr[OF s3] mean_step_Inr[OF s4]
        bos_step_Inr[OF s5] by simp
    with t1 save_step_Inl[OF r5] show ?thesis by simp
  qed
qed

lemma for_labels_append:
  "for_labels env a reps ss i (xs @ ys) st =
     (case for_labels env a reps ss i xs st of
        Inl x \<Rightarrow> Inl x
      | Inr s \<Rightarrow> for_labels env a reps ss (i + length xs) ys s)"
  by (induction xs arbitrary: i st) (auto split: sum.splits)

lemma for_batches_append:
  "for_batches env a rl (xs @ ys) st =
     (case for_batches env a rl xs st of
        Inl x \<Rightarrow> Inl x
      | Inr s \<Rightarrow> for_batches env a rl ys s)"
  by (induction xs arbitrary: st) (auto split: sum.splits)

text \<open>
  Claim C8. Let the run of \<^verbatim>\<open>extract_arrays.py\<close> on the input cut just before sequence
  \<open>N\<close> of a batch finish in the state \<open>stN\<close>, and let the save of sequence \<open>N\<close> fail.
  Then the whole run raises that failure at once: its final trace is the trace of \<open>stN\<close>,
  with every directory and file of the sequences before \<open>N\<close>, followed only by the
  creation of the parent directory for sequence \<open>N\<close>. Nothing is undone, nothing else is
  recorded, the save is not tried again, and no later sequence or batch is processed.
\<close>

theorem failed_save_halts_without_rollback:
  assumes "main_arrays env a (pre @ [b\<lparr>labels := take N (labels b)\<rparr>]) = Inr stN"
    and "N < length (labels b)"
    and "process_sequence env a
           (forward env (toks b) (map (canonical_layer (num_layers env)) (repr_layers a)))
           (strs b) N (labels b ! N) stN = Inl (LibraryError ev, st')"
    and "is_save ev"
  shows "main_arrays env a (pre @ b # post) = Inl (LibraryError ev, st') \<and>
         trace st' = trace stN @ [Mkdir (Parent (output_file a (labels b ! N)))] \<and>
         event_path ev = Some (output_file a (labels b ! N))"
proof -
  let ?rl = "map (canonical_layer (num_layers env)) (repr_layers a)"
  let ?reps = "forward env (toks b) ?rl"
  let ?b' = "b\<lparr>labels := take N (labels b)\<rparr>"
  from assms(1) obtain st0 where
    mk: "perform env (Mkdir (output_dir a)) \<lparr>trace = [], result = None\<rparr> = Inr st0"
    and rest: "(case normalize_layers (num_layers env) (repr_layers a) of
          Inl e \<Rightarrow> Inl (e, st0)
        | Inr rl \<Rightarrow> for_batches env a rl (pre @ [?b']) st0) = Inr stN"
    unfolding main_arrays_def and_then_Inr_iff by blast
  from rest have valid: "list_all (layer_in_range (num_layers env)) (repr_layers a)"
    and fb: "for_batches env a ?rl (pre @ [?b']) st0 = Inr stN"
    by (auto simp: normalize_layers_def split: if_splits)
  from fb obtain st1 where pre: "for_batches env a ?rl pre st0 = Inr st1"
    and pb: "process_batch env a ?rl ?b' st1 = Inr stN"
    by (auto simp: for_batches_append split: sum.splits)
  from pb obtain st2 where fw: "perform env (Forward (toks b) ?rl) st1 = Inr st2"
    and fl: "for_labels env a ?reps (strs b) 0 (take N (labels b)) st2 = Inr stN"
    unfolding process_batch_def and_then_Inr_iff by auto
  have split: "labels b = take N (labels b) @ (labels b ! N) # drop (Suc N) (labels b)"
    using assms(2) by (simp add: id_take_nth_drop)
  have len: "min (length (labels b)) N = N" using assms(2) by simp
  have "for_labels env a ?reps (strs b) 0 (labels b) st2 =
        for_labels env a ?reps (strs b) N
          ((labels b ! N) # drop (Suc N) (labels b)) stN"
    by (subst split, subst for_labels_append) (simp add: fl len)
  also have "\<dots> = Inl (LibraryError ev, st')"
    using assms(3) by simp
  finally have "process_batch env a ?rl b st1 = Inl (LibraryError ev, st')"
    by (simp add: process_batch_def and_then_def fw)
  then have "for_batches env a ?rl (pre @ b # post) st0 = Inl (LibraryError ev, st')"
    by (simp add: for_batches_append pre)
  then have "main_arrays env a (pre @ b # post) = Inl (LibraryError ev, st')"
    by (simp add: main_arrays_def and_then_def mk normalize_layers_def valid)
  with process_sequence_save_fails[OF assms(3,4)] show ?thesis by simp
qed

theorem failed_save_halts_without_rollback_witness:
  "main_arrays
     \<lparr>num_layers = 1,
       forward = (\<lambda>t rl. [(1, [[[1, 2], [3, 4], [5, 6]], [[7, 8], [9, 10], [0, 0]]])]),
       mean_axis0 = (\<lambda>m. []),
       io_fails = (\<lambda>ev::real event. is_save ev \<and> event_path ev = Some (Div (Path ''out'') ''s2.pt''))\<rparr>
     \<lparr>output_dir = Path ''out'', repr_layers = [- 1], include_kinds = [''bos'']\<rparr>
     (\<lparr>labels = [''s1'', ''s2''], strs = [''MK'', ''M''], toks = [[0, 5, 6], [0, 5, 1]]\<rparr> # [\<lparr>labels = [''s3''], strs = [''M''], toks = [[0, 5]]\<rparr>]) =
   Inl (LibraryError (TorchSave (Div (Path ''out'') ''s2.pt'') (Dict \<lparr>label = ''s2'', representations = None, mean_representations = None,
               bos_representations = Some [(1, [7, 8])]\<rparr>)),
        \<lparr>trace = [Mkdir (Path ''out''), Forward [[0, 5, 6], [0, 5, 1]] [1],
          Mkdir (Parent (Div (Path ''out'') ''s1.pt'')),
          TorchSave (Div (Path ''out'') ''s1.pt'') (Dict \<lparr>label = ''s1'', representations = None, mean_representations = None,
               bos_representations = Some [(1, [1, 2])]\<rparr>)] @ [Mkdir (Parent (Div (Path ''out'') ''s2.pt''))], result = Some (Dict \<lparr>label = ''s2'', representations = None, mean_representations = None,
               bos_representations = Some [(1, [7, 8])]\<rparr>)\<rparr>)"
proof -
  let ?env = "\<lparr>num_layers = 1,
       forward = (\<lambda>t rl. [(1, [[[1, 2], [3, 4], [5, 6]], [[7, 8], [9, 10], [0, 0]]])]),
       mean_axis0 = (\<lambda>m. []),
       io_fails = (\<lambda>ev::real event. is_save ev \<and> event_path ev = Some (Div (Path ''out'') ''s2.pt''))\<rparr>"
  let ?a = "\<lparr>output_dir = Path ''out'', repr_layers = [- 1], include_kinds = [''bos'']\<rparr>"
  let ?b = "\<lparr>labels = [''s1'', ''s2''], strs = [''MK'', ''M''], toks = [[0, 5, 6], [0, 5, 1]]\<rparr>"
  let ?stN = "\<lparr>trace = [Mkdir (Path ''out''), Forward [[0, 5, 6], [0, 5, 1]] [1],
          Mkdir (Parent (Div (Path ''out'') ''s1.pt'')),
          TorchSave (Div (Path ''out'') ''s1.pt'') (Dict \<lparr>label = ''s1'', representations = None, mean_representations = None,
               bos_representations = Some [(1, [1, 2])]\<rparr>)], result = Some (Dict \<lparr>label = ''s1'', representations = None, mean_representations = None,
               bos_representations = Some [(1, [1, 2])]\<rparr>)\<rparr>"
  let ?ev = "TorchSave (Div (Path ''out'') ''s2.pt'') (Dict \<lparr>label = ''s2'', representations = None, mean_representations = None,
               bos_representations = Some [(1, [7, 8])]\<rparr>)"
  let ?st' = "\<lparr>trace = [Mkdir (Path ''out''), Forward [[0, 5, 6], [0, 5, 1]] [1],
          Mkdir (Parent (Div (Path ''out'') ''s1.pt'')),
          TorchSave (Div (Path ''out'') ''s1.pt'') (Dict \<lparr>label = ''s1'', representations = None, mean_representations = None,
               bos_representations = Some [(1, [1, 2])]\<rparr>)] @ [Mkdir (Parent (Div (Path ''out'') ''s2.pt''))], result = Some (Dict \<lparr>label = ''s2'', representations = None, mean_representations = None,
               bos_representations = Some [(1, [7, 8])]\<rparr>)\<rparr>"
  have before: "main_arrays ?env ?a ([] @ [?b\<lparr>labels := take 1 (labels ?b)\<rparr>]) = Inr ?stN"
    by (simp add: main_arrays_def perform_def and_then_def normalize_layers_def layer_in_range_def
      canonical_layer_def process_batch_def process_sequence_def output_file_def npy_mode_def
      init_result_def per_tok_step_def mean_step_def bos_step_def save_step_def set_item_def
      bos_slice_def)
  have N: "1 < length (labels ?b)" by simp
  have fails: "process_sequence ?env ?a
      (forward ?env (toks ?b) (map (canonical_layer (num_layers ?env)) (repr_layers ?a)))
      (strs ?b) 1 (labels ?b ! 1) ?stN = Inl (LibraryError ?ev, ?st')"
    by (simp add: main_arrays_def perform_def and_then_def normalize_layers_def layer_in_range_def
      canonical_layer_def process_batch_def process_sequence_def output_file_def npy_mode_def
      init_result_def per_tok_step_def mean_step_def bos_step_def save_step_def set_item_def
      bos_slice_def)
  have save: "is_save ?ev" by simp
  from failed_save_halts_without_rollback[OF before N fails save, of "[\<lparr>labels = [''s3''], strs = [''M''], toks = [[0, 5]]\<rparr>]", THEN conjunct1]
  show ?thesis by (simp only: append_Nil)
qed

section \<open>Properties of \<^verbatim>\<open>extract-myseq.py\<close>\<close>

lemma overwrite_res_last:
  assumes "row_present reps ss i" "reps \<noteq> []"
  shows "overwrite_res env ss i reps st =
         Inr (st\<lparr>res := Some (mean_axis0 env (take (length (ss ! i)) (drop 1 (snd (last reps) ! i))))\<rparr>)"
  using assms
proof (induction reps arbitrary: st)
  case Nil
  then show ?case by simp
next
  case (Cons kv kvs)
  obtain l t where kv: "kv = (l, t)" by (cases kv)
  from Cons.prems(1) have here: "i < length ss" "i < length t"
    and rest: "row_present kvs ss i"
    by (auto simp: row_present_def kv)
  show ?case
  proof (cases "kvs = []")
    case True
    with here show ?thesis by (simp add: kv mean_slice_ok)
  next
    case False
    with Cons.IH[OF rest False] here show ?thesis
      by (simp add: kv mean_slice_ok)
  qed
qed

lemma overwrite_res_Inr: "overwrite_res env ss i reps st = Inr s \<Longrightarrow> trace s = trace st"
  by (induction reps arbitrary: st) (auto split: sum.splits)

lemma overwrite_res_Inl: "overwrite_res env ss i reps st = Inl (e, s) \<Longrightarrow> trace s = trace st"
  by (induction reps arbitrary: st) (auto split: sum.splits)

lemma and_then_myseq_set_item:
  "and_then (myseq_set_item rhs st) f = myseq_set_item rhs st"
  by (cases rhs) (simp_all add: myseq_set_item_def and_then_def)

lemma myseq_set_item_Inl: "\<exists>e. myseq_set_item rhs st = Inl (e, st)"
  by (cases rhs) (simp_all add: myseq_set_item_def)

text \<open>
  With the shapes as expected and the directory created, the loop body raises
  \<^verbatim>\<open>NameError\<close> for \<^verbatim>\<open>result\<close> at the first requested kind, before any save.
\<close>

lemma myseq_process_sequence_NameError:
  assumes inc: "''per_tok'' \<in> set (include_kinds a) \<or> ''mean'' \<in> set (include_kinds a) \<or>
                ''bos'' \<in> set (include_kinds a)"
    and wf: "row_present reps ss i" and ne: "reps \<noteq> []"
    and mk: "\<not> io_fails env (Mkdir (Parent (Div (output_dir a) lbl)))"
  shows "\<exists>st'. myseq_process_sequence env a reps ss i lbl st = Inl (NameError ''result'', st') \<and>
           trace st' = trace st @ [Mkdir (Parent (Div (output_dir a) lbl))]"
proof (cases "''per_tok'' \<in> set (include_kinds a)")
  case True
  with mk show ?thesis
    by (simp add: myseq_process_sequence_def and_then_def perform_def myseq_per_tok_step_def
        myseq_set_item_def dict_comp_per_tok[OF wf])
next
  case pt: False
  show ?thesis
  proof (cases "''mean'' \<in> set (include_kinds a)")
    case True
    with pt mk show ?thesis
      by (simp add: myseq_process_sequence_def and_then_def perform_def myseq_per_tok_step_def
          myseq_mean_step_def myseq_set_item_def dict_comp_mean[OF wf])
  next
    case False
    with pt inc have "''bos'' \<in> set (include_kinds a)" by simp
    with pt False mk show ?thesis
      by (simp add: myseq_process_sequence_def and_then_def perform_def myseq_per_tok_step_def
          myseq_mean_step_def myseq_bos_step_def myseq_set_item_def myseq_detach_numpy_def
          overwrite_res_last[OF wf ne] dict_comp_bos[OF wf])
  qed
qed

text \<open>
  Whatever the tensors and the environment, the loop body raises when one of the three
  kinds is requested, and it completes no save.
\<close>

lemma myseq_process_sequence_never_saves:
  assumes inc: "''per_tok'' \<in> set (include_kinds a) \<or> ''mean'' \<in> set (include_kinds a) \<or>
                ''bos'' \<in> set (include_kinds a)"
  shows "\<exists>e st'. myseq_process_sequence env a reps ss i lbl st = Inl (e, st') \<and>
           filter is_save (trace st') = filter is_save (trace st)"
proof (cases "io_fails env (Mkdir (Parent (Div (output_dir a) lbl)))")
  case True
  then show ?thesis
    by (simp add: myseq_process_sequence_def and_then_def perform_def)
next
  case mk: False
  let ?st1 = "st\<lparr>trace := trace st @ [Mkdir (Parent (Div (output_dir a) lbl))]\<rparr>"
  have t1: "filter is_save (trace ?st1) = filter is_save (trace st)" by simp
  show ?thesis
  proof (cases "''per_tok'' \<in> set (include_kinds a)")
    case True
    from myseq_set_item_Inl[of "dict_comp (per_tok_slice ss i) reps" ?st1]
    obtain e where "myseq_set_item (dict_comp (per_tok_slice ss i) reps) ?st1 = Inl (e, ?st1)" ..
    with True mk t1 show ?thesis
      by (simp add: myseq_process_sequence_def and_then_def perform_def myseq_per_tok_step_def)
  next
    case pt: False
    show ?thesis
    proof (cases "''mean'' \<in> set (include_kinds a)")
      case True
      from myseq_set_item_Inl[of "dict_comp (mean_slice env ss i) reps" ?st1]
      obtain e where "myseq_set_item (dict_comp (mean_slice env ss i) reps) ?st1 = Inl (e, ?st1)" ..
      with True pt mk t1 show ?thesis
        by (simp add: myseq_process_sequence_def and_then_def perform_def myseq_per_tok_step_def
            myseq_mean_step_def)
    next
      case mn: False
      with pt inc have bos: "''bos'' \<in> set (include_kinds a)" by simp
      have run: "myseq_process_sequence env a reps ss i lbl st =
          and_then (overwrite_res env ss i reps ?st1) (\<lambda>st.
          and_then (myseq_detach_numpy st) (\<lambda>st.
            myseq_set_item (dict_comp (bos_slice i) reps) st))"
        using pt mn bos mk
        by (simp add: myseq_process_sequence_def perform_def myseq_per_tok_step_def
            myseq_mean_step_def myseq_bos_step_def and_then_myseq_set_item)
          (simp add: and_then_def)
      show ?thesis
      proof (cases "overwrite_res env ss i reps ?st1")
        case (Inl x)
        obtain e s where x: "x = (e, s)" by (cases x)
        from overwrite_res_Inl[OF Inl[unfolded x]] t1 show ?thesis
          by (simp add: run and_then_def Inl x)
      next
        case (Inr s2)
        from overwrite_res_Inr[OF Inr] have t2: "trace s2 = trace ?st1" .
        from myseq_set_item_Inl[of "dict_comp (bos_slice i) reps" s2]
        obtain e where "myseq_set_item (dict_comp (bos_slice i) reps) s2 = Inl (e, s2)" ..
        with Inr t2 t1 show ?thesis
          by (simp add: run and_then_def myseq_detach_numpy_def split: option.splits)
      qed
    qed
  qed
qed

lemma myseq_for_labels_never_saves:
  assumes "''per_tok'' \<in> set (include_kinds a) \<or> ''mean'' \<in> set (include_kinds a) \<or>
           ''bos'' \<in> set (include_kinds a)"
  shows "filter is_save (trace (final_state (myseq_for_labels env a reps ss i ls st))) =
         filter is_save (trace st)"
proof (cases ls)
  case Nil
  then show ?thesis by (simp add: final_state_def)
next
  case (Cons lbl rest)
  from myseq_process_sequence_never_saves[OF assms, of env reps ss i lbl st]
  show ?thesis by (auto simp: Cons final_state_def)
qed

lemma myseq_process_batch_never_saves:
  assumes "''per_tok'' \<in> set (include_kinds a) \<or> ''mean'' \<in> set (include_kinds a) \<or>
           ''bos'' \<in> set (include_kinds a)"
  shows "filter is_save (trace (final_state (myseq_process_batch env a rl b st))) =
         filter is_save (trace st)"
proof (cases "io_fails env (Forward (toks b) rl)")
  case True
  then show ?thesis
    by (simp add: myseq_process_batch_def perform_def and_then_def final_state_def)
next
  case False
  then show ?thesis
    by (simp add: myseq_process_batch_def perform_def and_then_def
        myseq_for_labels_never_saves[OF assms])
qed

lemma myseq_for_batches_never_saves:
  assumes "''per_tok'' \<in> set (include_kinds a) \<or> ''mean'' \<in> set (include_kinds a) \<or>
           ''bos'' \<in> set (include_kinds a)"
  shows "filter is_save (trace (final_state (myseq_for_batches env a rl bs st))) =
         filter is_save (trace st)"
proof (induction bs arbitrary: st)
  case Nil
  then show ?case by (simp add: final_state_def)
next
  case (Cons b bs)
  show ?case
  proof (cases "myseq_process_batch env a rl b st")
    case (Inl x)
    with myseq_process_batch_never_saves[OF assms, of env rl b st] show ?thesis by simp
  next
    case (Inr s)
    with myseq_process_batch_never_saves[OF assms, of env rl b st]
    have "filter is_save (trace s) = filter is_save (trace st)" by (simp add: final_state_def)
    with Cons.IH[of s] Inr show ?thesis by simp
  qed
qed

lemma myseq_process_file_never_saves:
  assumes "''per_tok'' \<in> set (include_kinds a) \<or> ''mean'' \<in> set (include_kinds a) \<or>
           ''bos'' \<in> set (include_kinds a)"
  shows "filter is_save (trace (final_state (myseq_process_file env a f st))) =
         filter is_save (trace st)"
proof (cases "io_fails env (Mkdir (output_dir a))")
  case True
  then show ?thesis
    by (simp add: myseq_process_file_def perform_def and_then_def final_state_def)
next
  case False
  show ?thesis
  proof (cases "list_all (layer_in_range (num_layers env)) (repr_layers a)")
    case True
    with False show ?thesis
      by (simp add: myseq_process_file_def perform_def and_then_def normalize_layers_def
          myseq_for_batches_never_saves[OF assms])
  next
    case invalid: False
    with False show ?thesis
      by (simp add: myseq_process_file_def perform_def and_then_def normalize_layers_def
          final_state_def)
  qed
qed

lemma myseq_for_files_never_saves:
  assumes "''per_tok'' \<in> set (include_kinds a) \<or> ''mean'' \<in> set (include_kinds a) \<or>
           ''bos'' \<in> set (include_kinds a)"
  shows "filter is_save (trace (final_state (myseq_for_files env a fs st))) =
         filter is_save (trace st)"
proof (induction fs arbitrary: st)
  case Nil
  then show ?case by (simp add: final_state_def)
next
  case (Cons f fs)
  show ?case
  proof (cases "myseq_process_file env a f st")
    case (Inl x)
    with myseq_process_file_never_saves[OF assms, of env f st] show ?thesis by simp
  next
    case (Inr s)
    with myseq_process_file_never_saves[OF assms, of env f st]
    have "filter is_save (trace s) = filter is_save (trace st)" by (simp add: final_state_def)
    with Cons.IH[of s] Inr show ?thesis by simp
  qed
qed

text \<open>
  Claim C9. In \<^verbatim>\<open>extract-myseq.py\<close>, with any of the three kinds requested, a run whose
  first FASTA file has a first batch with a sequence raises \<^verbatim>\<open>NameError\<close> for \<^verbatim>\<open>result\<close>
  while processing that first sequence: the calls completed are the creation of the output
  directory, the forward pass of the batch and the creation of the sequence's parent
  directory, and nothing is saved. Whatever the input, no run with such a request
  completes a save.
\<close>

theorem myseq_first_sequence_raises_NameError:
  fixes env :: "'a env"
  assumes "''per_tok'' \<in> set (include_kinds a) \<or> ''mean'' \<in> set (include_kinds a) \<or>
           ''bos'' \<in> set (include_kinds a)"
    and "labels b = lbl # ls"
    and "list_all (layer_in_range (num_layers env)) (repr_layers a)"
    and "rl = map (canonical_layer (num_layers env)) (repr_layers a)"
    and "row_present (forward env (toks b) rl) (strs b) 0"
    and "forward env (toks b) rl \<noteq> []"
    and "\<not> io_fails env (Mkdir (output_dir a))"
    and "\<not> io_fails env (Forward (toks b) rl)"
    and "\<not> io_fails env (Mkdir (Parent (Div (output_dir a) lbl)))"
  shows "(\<exists>st'. main_myseq env a ((b # bs) # fs) = Inl (NameError ''result'', st') \<and>
            trace st' = [Mkdir (output_dir a), Forward (toks b) rl,
                         Mkdir (Parent (Div (output_dir a) lbl))]) \<and>
         \<not> list_ex is_save (trace (final_state (main_myseq env a files)))"
proof
  let ?st1 = "\<lparr>trace = [Mkdir (output_dir a), Forward (toks b) rl], res = None\<rparr> :: 'a myseq_state"
  from myseq_process_sequence_NameError[OF assms(1,5,6,9), of ?st1]
  obtain st' where run: "myseq_process_sequence env a (forward env (toks b) rl) (strs b) 0 lbl ?st1 =
      Inl (NameError ''result'', st')"
    and tr: "trace st' = trace ?st1 @ [Mkdir (Parent (Div (output_dir a) lbl))]" by blast
  have "main_myseq env a ((b # bs) # fs) = Inl (NameError ''result'', st')"
    using assms(2,3,7,8) run
    by (simp add: main_myseq_def myseq_process_file_def perform_def and_then_def
        normalize_layers_def assms(4)[symmetric] myseq_process_batch_def)
  with tr show "\<exists>st'. main_myseq env a ((b # bs) # fs) = Inl (NameError ''result'', st') \<and>
            trace st' = [Mkdir (output_dir a), Forward (toks b) rl,
                         Mkdir (Parent (Div (output_dir a) lbl))]" by simp
next
  from myseq_for_files_never_saves[OF assms(1), of env files "\<lparr>trace = [], res = None\<rparr>"]
  have "filter is_save (trace (final_state (main_myseq env a files))) = []"
    by (simp add: main_myseq_def)
  then show "\<not> list_ex is_save (trace (final_state (main_myseq env a files)))"
    by (simp add: list_ex_iff filter_empty_conv)
qed

theorem myseq_first_sequence_raises_NameError_witness:
  "\<exists>st'. main_myseq
      \<lparr>num_layers = 1, forward = (\<lambda>t rl. [(1, [[[1, 2], [3, 4], [5, 6]]])]),
       mean_axis0 = (\<lambda>m. []), io_fails = (\<lambda>ev::real event. False)\<rparr>
      \<lparr>output_dir = Path ''out'', repr_layers = [- 1], include_kinds = [''mean'']\<rparr>
      [[\<lparr>labels = [''s1''], strs = [''MK''], toks = [[0, 5, 6]]\<rparr>]] =
        Inl (NameError ''result'', st') \<and>
      trace st' = [Mkdir (Path ''out''), Forward [[0, 5, 6]] [1],
                   Mkdir (Parent (Div (Path ''out'') ''s1''))]"
proof -
  let ?env = "\<lparr>num_layers = 1, forward = (\<lambda>t rl. [(1, [[[1, 2], [3, 4], [5, 6]]])]),
       mean_axis0 = (\<lambda>m. []), io_fails = (\<lambda>ev::real event. False)\<rparr>"
  let ?a = "\<lparr>output_dir = Path ''out'', repr_layers = [- 1], include_kinds = [''mean'']\<rparr>"
  let ?b = "\<lparr>labels = [''s1''], strs = [''MK''], toks = [[0, 5, 6]]\<rparr>"
  have inc: "''per_tok'' \<in> set (include_kinds ?a) \<or> ''mean'' \<in> set (include_kinds ?a) \<or>
           ''bos'' \<in> set (include_kinds ?a)" by simp
  have lb: "labels ?b = ''s1'' # []" by simp
  have valid: "list_all (layer_in_range (num_layers ?env)) (repr_layers ?a)"
    by (simp add: layer_in_range_def)
  have rl: "[1] = map (canonical_layer (num_layers ?env)) (repr_layers ?a)"
    by (simp add: canonical_layer_def)
  have wf: "row_present (forward ?env (toks ?b) [1]) (strs ?b) 0"
    by (simp add: row_present_def)
  have ne: "forward ?env (toks ?b) [1] \<noteq> []" by simp
  have io: "\<not> io_fails ?env (Mkdir (output_dir ?a))"
    "\<not> io_fails ?env (Forward (toks ?b) [1])"
    "\<not> io_fails ?env (Mkdir (Parent (Div (output_dir ?a) ''s1'')))" by simp_all
  from myseq_first_sequence_raises_NameError[OF inc lb valid rl wf ne io, of "[]" "[]" "[]",
      THEN conjunct1]
  show ?thesis by simp
qed

section \<open>The raw-array mode without \<^verbatim>\<open>per_tok\<close>\<close>

text \<open>
  Claim C10. In \<^verbatim>\<open>extract_arrays.py\<close> with \<^verbatim>\<open>npy_array\<close> but not \<^verbatim>\<open>per_tok\<close> requested,
  the loop body never assigns \<^verbatim>\<open>result\<close>. Entered with \<^verbatim>\<open>result\<close> unbound, it raises
  \<^verbatim>\<open>UnboundLocalError\<close>, a \<^verbatim>\<open>NameError\<close>, when \<^verbatim>\<open>np.save\<close> reads the variable; entered
  with \<^verbatim>\<open>result\<close> bound to an earlier value, it saves that value unchanged under the
  new sequence's file name. The first sequence of a run is entered with \<^verbatim>\<open>result\<close>
  unbound, so the run raises there.
\<close>

theorem npy_array_without_per_tok:
  assumes "''npy_array'' \<in> set (include_kinds a)" and "''per_tok'' \<notin> set (include_kinds a)"
    and "\<not> io_fails env (Mkdir (Parent (Div (output_dir a) lbl)))"
  shows "(result st = None \<longrightarrow>
            process_sequence env a reps ss i lbl st =
              Inl (UnboundLocalError ''result'',
                   st\<lparr>trace := trace st @ [Mkdir (Parent (Div (output_dir a) lbl))]\<rparr>)) \<and>
         (result st = Some v \<and> \<not> io_fails env (NpSave (Div (output_dir a) lbl) v) \<longrightarrow>
            process_sequence env a reps ss i lbl st =
              Inr (st\<lparr>trace := trace st @ [Mkdir (Parent (Div (output_dir a) lbl)),
                                            NpSave (Div (output_dir a) lbl) v]\<rparr>)) \<and>
         (labels b = lbl # ls \<and>
          list_all (layer_in_range (num_layers env)) (repr_layers a) \<and>
          \<not> io_fails env (Mkdir (output_dir a)) \<and>
          \<not> io_fails env (Forward (toks b) (map (canonical_layer (num_layers env)) (repr_layers a))) \<longrightarrow>
            main_arrays env a (b # bs) =
              Inl (UnboundLocalError ''result'',
                   \<lparr>trace = [Mkdir (output_dir a),
                              Forward (toks b) (map (canonical_layer (num_layers env)) (repr_layers a)),
                              Mkdir (Parent (Div (output_dir a) lbl))],
                    result = None\<rparr>) \<and>
            is_NameError (UnboundLocalError ''result''))"
proof -
  from assms(1) have npy: "npy_mode a" by (simp add: npy_mode_def)
  have unbound: "process_sequence env a reps ss i lbl st =
              Inl (UnboundLocalError ''result'',
                   st\<lparr>trace := trace st @ [Mkdir (Parent (Div (output_dir a) lbl))]\<rparr>)"
    if "result st = None" for reps ss i and st :: "'a state"
    using that npy assms(2,3)
    by (simp add: process_sequence_def and_then_def perform_def output_file_def init_result_def
        per_tok_step_def mean_step_def bos_step_def save_step_def)
  have stale: "process_sequence env a reps ss i lbl st =
              Inr (st\<lparr>trace := trace st @ [Mkdir (Parent (Div (output_dir a) lbl)),
                                            NpSave (Div (output_dir a) lbl) v]\<rparr>)"
    if "result st = Some v" "\<not> io_fails env (NpSave (Div (output_dir a) lbl) v)"
    using that npy assms(2,3)
    by (simp add: process_sequence_def and_then_def perform_def output_file_def init_result_def
        per_tok_step_def mean_step_def bos_step_def save_step_def)
  have first: "main_arrays env a (b # bs) =
              Inl (UnboundLocalError ''result'',
                   \<lparr>trace = [Mkdir (output_dir a),
                              Forward (toks b) (map (canonical_layer (num_layers env)) (repr_layers a)),
                              Mkdir (Parent (Div (output_dir a) lbl))],
                    result = None\<rparr>)"
    if "labels b = lbl # ls" "list_all (layer_in_range (num_layers env)) (repr_layers a)"
      "\<not> io_fails env (Mkdir (output_dir a))"
      "\<not> io_fails env (Forward (toks b) (map (canonical_layer (num_layers env)) (repr_layers a)))"
    using that
    by (simp add: main_arrays_def and_then_def perform_def normalize_layers_def process_batch_def
        unbound)
  from unbound stale first show ?thesis by simp
qed

theorem npy_array_without_per_tok_witness:
  "main_arrays
      \<lparr>num_layers = 1, forward = (\<lambda>t rl. [(1, [[[1, 2], [3, 4], [5, 6]]])]),
       mean_axis0 = (\<lambda>m. []), io_fails = (\<lambda>ev::real event. False)\<rparr>
      \<lparr>output_dir = Path ''out'', repr_layers = [- 1], include_kinds = [''npy_array'', ''mean'']\<rparr>
      [\<lparr>labels = [''s1'', ''s2''], strs = [''MK'', ''M''], toks = [[0, 5, 6], [0, 5, 1]]\<rparr>] =
     Inl (UnboundLocalError ''result'',
          \<lparr>trace = [Mkdir (Path ''out''), Forward [[0, 5, 6], [0, 5, 1]] [1],
                     Mkdir (Parent (Div (Path ''out'') ''s1''))],
           result = None\<rparr>) \<and>
   process_sequence
      \<lparr>num_layers = 1, forward = (\<lambda>t rl. [(1, [[[1, 2], [3, 4], [5, 6]]])]),
       mean_axis0 = (\<lambda>m. []), io_fails = (\<lambda>ev::real event. False)\<rparr>
      \<lparr>output_dir = Path ''out'', repr_layers = [- 1], include_kinds = [''npy_array'', ''mean'']\<rparr>
      [(1, [[[1, 2], [3, 4], [5, 6]], [[7, 8], [9, 10], [0, 0]]])] [''MK'', ''M''] 1 ''s2''
      \<lparr>trace = [], result = Some (Matrix [[3, 4], [5, 6]])\<rparr> =
     Inr \<lparr>trace = [Mkdir (Parent (Div (Path ''out'') ''s2'')),
                   NpSave (Div (Path ''out'') ''s2'') (Matrix [[3, 4], [5, 6]])],
          result = Some (Matrix [[3, 4], [5, 6]])\<rparr>"
proof -
  let ?env = "\<lparr>num_layers = 1, forward = (\<lambda>t rl. [(1, [[[1, 2], [3, 4], [5, 6]]])]),
       mean_axis0 = (\<lambda>m. []), io_fails = (\<lambda>ev::real event. False)\<rparr>"
  let ?a = "\<lparr>output_dir = Path ''out'', repr_layers = [- 1],
       include_kinds = [''npy_array'', ''mean'']\<rparr>"
  let ?b = "\<lparr>labels = [''s1'', ''s2''], strs = [''MK'', ''M''], toks = [[0, 5, 6], [0, 5, 1]]\<rparr>"
  have npy: "''npy_array'' \<in> set (include_kinds ?a)" and pt: "''per_tok'' \<notin> set (include_kinds ?a)"
    by simp_all
  have mk1: "\<not> io_fails ?env (Mkdir (Parent (Div (output_dir ?a) ''s1'')))"
    and mk2: "\<not> io_fails ?env (Mkdir (Parent (Div (output_dir ?a) ''s2'')))" by simp_all
  from npy_array_without_per_tok[OF npy pt mk1,
      where b = ?b and ls = "[''s2'']" and bs = "[]" and st = "\<lparr>trace = [], result = None\<rparr>"]
  have first: "main_arrays ?env ?a [?b] =
     Inl (UnboundLocalError ''result'',
          \<lparr>trace = [Mkdir (Path ''out''), Forward [[0, 5, 6], [0, 5, 1]] [1],
                     Mkdir (Parent (Div (Path ''out'') ''s1''))],
           result = None\<rparr>)"
    by (simp add: layer_in_range_def canonical_layer_def)
  from npy_array_without_per_tok[OF npy pt mk2,
      where st = "\<lparr>trace = [], result = Some (Matrix [[3, 4], [5, 6]])\<rparr>"
        and v = "Matrix [[3, 4], [5, 6]]"
        and reps = "[(1, [[[1, 2], [3, 4], [5, 6]], [[7, 8], [9, 10], [0, 0]]])]"
        and ss = "[''MK'', ''M'']" and i = 1]
  have stale: "process_sequence ?env ?a
      [(1, [[[1, 2], [3, 4], [5, 6]], [[7, 8], [9, 10], [0, 0]]])] [''MK'', ''M''] 1 ''s2''
      \<lparr>trace = [], result = Some (Matrix [[3, 4], [5, 6]])\<rparr> =
     Inr \<lparr>trace = [Mkdir (Parent (Div (Path ''out'') ''s2'')),
                   NpSave (Div (Path ''out'') ''s2'') (Matrix [[3, 4], [5, 6]])],
          result = Some (Matrix [[3, 4], [5, 6]])\<rparr>"
    by simp
  from first stale show ?thesis by simp
qed

end
